theory Spec2Isabelle
  imports Main "HOL-Library.Sublist"
begin

section \<open>The export stages of groqflow (src/groqflow/justgroqit/export.py)\<close>

text \<open>
  The five stages of \<^verbatim>\<open>export.py\<close> take the build state, call one external
  library and check the file it wrote. The state is a record that every stage returns
  updated; the file system, the printed lines and the calls made to the exporter are the
  world; an exception is a value, returned together with the state and the world as they
  are at the moment of the raise (Python mutates the state object in place, so the caller
  sees every assignment made before the raise).
\<close>

subsection \<open>Data\<close>

type_synonym path = string

text \<open>A tensor is opaque to the stages: a shape and flat contents.\<close>

datatype tensor = Tensor (tensor_shape: "nat list") (tensor_data: "int list")

text \<open>
  What the stages read of a loaded ONNX model. \<open>opset_import\<close> is the list of the
  operator sets the model imports, each an \<^verbatim>\<open>OperatorSetIdProto\<close> with two
  optional fields: the domain (absent or empty for the default operator set, whose version
  is the opset of the model) and the version. \<open>graph_input_names\<close> holds the names of
  the graph inputs, \<open>graph_input_dims\<close> holds \<^verbatim>\<open>d.dim_value\<close> for every
  dimension of every graph input (a protobuf int64, 0 for a symbolic dimension),
  \<open>graph_nodes\<close> the operator types of the graph.
\<close>

record opset_id =
  domain :: "string option"
  version :: "int option"

record onnx_model =
  opset_import :: "opset_id list"
  graph_input_names :: "string list"
  graph_input_dims :: "int list list"
  graph_nodes :: "string list"

text \<open>
  A dict is an association list in insertion order; Python's \<^verbatim>\<open>None\<close> as a
  value is \<open>None\<close>.
\<close>

type_synonym inputs_dict = "(string \<times> tensor option) list"

datatype file_content =
    OnnxFile onnx_model
  | InputsFile "inputs_dict list"
  | OtherFile string

text \<open>
  \<^verbatim>\<open>state.model\<close>: a \<^verbatim>\<open>str\<close>, a \<^verbatim>\<open>torch.nn.Module\<close> that is
  not scripted (with the parameter names of its \<^verbatim>\<open>forward\<close>), a
  \<^verbatim>\<open>torch.jit.ScriptModule\<close>, or an object of another type (with the name of the
  type). The second field of a module identifies it to the exporter.
\<close>

datatype model_ref =
    PathStr string
  | NNModule "string list" string
  | ScriptModule "string list" string
  | OtherModel string

text \<open>
  The exceptions that leave a stage: those the stage raises itself, those of Python
  (\<^verbatim>\<open>AttributeError\<close>, \<^verbatim>\<open>IndexError\<close>,
  \<^verbatim>\<open>FileNotFoundError\<close>), an exception of a library the stage calls
  (\<open>ExternalError\<close>) and an exception of \<^verbatim>\<open>onnx.checker\<close> that is not its
  \<^verbatim>\<open>ValidationError\<close> (\<open>CheckerError\<close>).
\<close>

datatype error =
    GroqitStageError string
  | ValueError string
  | AttributeError string
  | IndexError string
  | FileNotFoundError string
  | ExternalError string
  | CheckerError string

datatype outcome = Returned | Raised error

record build_info =
  base_onnx_exported :: "bool option"
  opset :: "int option"
  opt_onnx_exported :: "bool option"
  opt_onnx_ops :: "string list option"
  opt_onnx_unsupported_ops :: "string list option"
  opt_onnx_all_ops_supported :: "bool option"
  converted_onnx_exported :: "bool option"

record build_state =
  model :: model_ref
  inputs :: inputs_dict
  base_onnx_file :: path
  opt_onnx_file :: path
  converted_onnx_file :: path
  original_inputs_file :: path
  intermediate_results :: "path list"
  use_sdk :: bool
  info :: build_info

text \<open>One call of \<^verbatim>\<open>torch.onnx.export\<close>, with the arguments the stage passes.\<close>

record export_call =
  call_model :: model_ref
  call_args :: "tensor option list"
  call_path :: path
  call_input_names :: "string list"
  call_opset_version :: int

record world =
  fs :: "path \<Rightarrow> file_content option"
  stdout :: "string list"
  export_calls :: "export_call list"

text \<open>
  The constants of \<^verbatim>\<open>groqflow.common.build\<close>, the attribute
  \<^verbatim>\<open>self.logfile_path\<close> of the stage and the libraries the stages call are not in
  \<^verbatim>\<open>export.py\<close>: they are parameters. A library call either raises (\<open>Inl\<close>
  with its message, an \<open>ExternalError\<close> of the stage) or returns.
  \<^item> \<open>onnx_checker\<close>: \<^verbatim>\<open>onnx.checker.check_model\<close> on a parsed model: it
    passes, raises its \<^verbatim>\<open>ValidationError\<close>, or raises an exception of another
    class (a \<open>CheckerError\<close> of the stage);
  \<^item> \<open>torch_onnx_export\<close>: the model \<^verbatim>\<open>torch.onnx.export\<close> writes;
  \<^item> \<open>ort_optimize\<close>: the model an \<^verbatim>\<open>onnxruntime.InferenceSession\<close> serialises
    to \<^verbatim>\<open>optimized_model_filepath\<close>;
  \<^item> \<open>convert_float_to_float16\<close>: the converter of \<^verbatim>\<open>onnxmltools\<close>;
  \<^item> \<open>sdk_check_dependencies\<close>: \<^verbatim>\<open>sdk.check_dependencies\<close>, \<open>None\<close> when the
    dependencies are there, the message of the exception otherwise;
  \<^item> \<open>check_ops\<close>: \<^verbatim>\<open>onnx_helpers.check_ops\<close>, the operators of the model and the
    unsupported ones.
\<close>

datatype checker_result = Passed | ValidationError string | CheckerRaised string

record env =
  DEFAULT_ONNX_OPSET :: int
  MINIMUM_ONNX_OPSET :: int
  logfile_path :: string
  onnx_checker :: "onnx_model \<Rightarrow> checker_result"
  torch_onnx_export :: "model_ref \<Rightarrow> tensor option list \<Rightarrow> string list \<Rightarrow> int \<Rightarrow> string + onnx_model"
  ort_optimize :: "onnx_model \<Rightarrow> string + onnx_model"
  convert_float_to_float16 :: "onnx_model \<Rightarrow> string + onnx_model"
  sdk_check_dependencies :: "bool \<Rightarrow> string option"
  check_ops :: "onnx_model \<Rightarrow> bool \<Rightarrow> string + (string list \<times> string list)"

subsection \<open>Python and library primitives\<close>

definition print :: "string \<Rightarrow> world \<Rightarrow> world" where
  "print s w = w\<lparr>stdout := stdout w @ [s]\<rparr>"

definition isfile :: "world \<Rightarrow> path \<Rightarrow> bool" where
  "isfile w p = (fs w p \<noteq> None)"

definition endswith :: "string \<Rightarrow> string \<Rightarrow> bool" where
  "endswith s suf = (length suf \<le> length s \<and> drop (length s - length suf) s = suf)"

text \<open>
  \<^verbatim>\<open>dict(pairs)\<close>: a key that is already there keeps its place and takes the new
  value, a new key goes to the end.
\<close>

fun dict_set :: "'k \<Rightarrow> 'v \<Rightarrow> ('k \<times> 'v) list \<Rightarrow> ('k \<times> 'v) list" where
  "dict_set k v [] = [(k, v)]"
| "dict_set k v (p # ps) = (if fst p = k then (k, v) # ps else p # dict_set k v ps)"

definition dict :: "('k \<times> 'v) list \<Rightarrow> ('k \<times> 'v) list" where
  "dict kvs = foldl (\<lambda>d kv. dict_set (fst kv) (snd kv) d) [] kvs"

definition keys :: "('k \<times> 'v) list \<Rightarrow> 'k list" where
  "keys d = map fst d"

definition values_of :: "('k \<times> 'v) list \<Rightarrow> 'v list" where
  "values_of d = map snd d"

text \<open>
  \<^verbatim>\<open>re.search(r"\d+", s)\<close>: the first maximal run of decimal digits, \<open>None\<close> when
  the string has no digit; \<^verbatim>\<open>int\<close> reads the run in base ten.
\<close>

definition is_digit :: "char \<Rightarrow> bool" where
  "is_digit c = (48 \<le> (of_char c :: nat) \<and> (of_char c :: nat) \<le> 57)"

definition re_search_digits :: "string \<Rightarrow> string option" where
  "re_search_digits s =
     (let r = dropWhile (\<lambda>c. \<not> is_digit c) s
      in if r = [] then None else Some (takeWhile is_digit r))"

definition int_of_digits :: "string \<Rightarrow> int" where
  "int_of_digits ds = foldl (\<lambda>n c. 10 * n + (int (of_char c) - 48)) 0 ds"

text \<open>
  \<^verbatim>\<open>str(n)\<close> for a length and for an \<^verbatim>\<open>int\<close>, and the
  \<^verbatim>\<open>repr\<close> of a list of identifiers.
\<close>

fun str_nat :: "nat \<Rightarrow> string" where
  "str_nat n =
     (if n < 10 then [char_of (48 + n)]
      else str_nat (n div 10) @ [char_of (48 + n mod 10)])"

declare str_nat.simps [simp del]

definition str_int :: "int \<Rightarrow> string" where
  "str_int i = (if i < 0 then CHR ''-'' # str_nat (nat (- i)) else str_nat (nat i))"

fun join :: "string \<Rightarrow> string list \<Rightarrow> string" where
  "join sep [] = []"
| "join sep [x] = x"
| "join sep (x # y # ys) = x @ sep @ join sep (y # ys)"

definition repr_str :: "string \<Rightarrow> string" where
  "repr_str s = [CHR 0x27] @ s @ [CHR 0x27]"

definition repr_list :: "string list \<Rightarrow> string" where
  "repr_list xs = ''['' @ join '', '' (map repr_str xs) @ '']''"

text \<open>
  \<^verbatim>\<open>str(model.opset_import)\<close>: the list of the imports, each in the text format
  of protobuf, one line for every field that is set (a domain is printed between double
  quotes; the names of operator-set domains hold no character that the format escapes).
\<close>

definition str_opset_id :: "opset_id \<Rightarrow> string" where
  "str_opset_id i =
     (case domain i of None \<Rightarrow> [] | Some d \<Rightarrow> ''domain: '' @ [CHR 0x22] @ d @ [CHR 0x22, CHR 0x0A])
     @ (case version i of None \<Rightarrow> [] | Some v \<Rightarrow> ''version: '' @ str_int v @ [CHR 0x0A])"

definition str_opset_import :: "opset_id list \<Rightarrow> string" where
  "str_opset_import imports = ''['' @ join '', '' (map str_opset_id imports) @ '']''"

text \<open>\<^verbatim>\<open>type(state.model)\<close> as an f-string prints it.\<close>

fun type_name :: "model_ref \<Rightarrow> string" where
  "type_name (PathStr _) = ''str''"
| "type_name (NNModule _ cls) = cls"
| "type_name (ScriptModule _ cls) = cls"
| "type_name (OtherModel cls) = cls"

definition type_repr :: "model_ref \<Rightarrow> string" where
  "type_repr m = ''<class '' @ [CHR 0x27] @ type_name m @ [CHR 0x27] @ ''>''"

text \<open>
  A triple-quoted message: every line of the literal follows a line break and the
  indentation of the source, and the literal ends with one more of both.
\<close>

definition nl :: "nat \<Rightarrow> string" where
  "nl n = CHR 0x0A # replicate n CHR '' ''"

definition message :: "nat \<Rightarrow> string list \<Rightarrow> string" where
  "message n ls = concat (map (\<lambda>l. nl n @ l) ls) @ nl n"

text \<open>
  \<^verbatim>\<open>onnx.load(path)\<close> (and \<^verbatim>\<open>onnx.load_model\<close>, and the loading a session or
  the operator check starts with): the model in the file, or the exception of the library.
\<close>

definition onnx_load :: "world \<Rightarrow> path \<Rightarrow> error + onnx_model" where
  "onnx_load w p =
     (case fs w p of
        None \<Rightarrow> Inl (FileNotFoundError p)
      | Some (OnnxFile m) \<Rightarrow> Inr m
      | Some _ \<Rightarrow> Inl (ExternalError ''Error parsing message''))"

text \<open>
  \<^verbatim>\<open>onnx.checker.check_model(path)\<close>: a file that does not parse as a model fails
  the check like a model the checker rejects, with a \<^verbatim>\<open>ValidationError\<close>.
\<close>

definition onnx_checker_check_model :: "env \<Rightarrow> world \<Rightarrow> path \<Rightarrow> checker_result" where
  "onnx_checker_check_model e w p =
     (case fs w p of
        None \<Rightarrow> ValidationError ''Unable to open proto file''
      | Some (OnnxFile m) \<Rightarrow> onnx_checker e m
      | Some _ \<Rightarrow> ValidationError ''Unable to parse proto from file'')"

text \<open>\<^verbatim>\<open>shutil.move(src, dst)\<close> between two file paths.\<close>

definition shutil_move :: "path \<Rightarrow> path \<Rightarrow> world \<Rightarrow> error + world" where
  "shutil_move src dst w =
     (case fs w src of
        None \<Rightarrow> Inl (FileNotFoundError src)
      | Some f \<Rightarrow> Inr (w\<lparr>fs := ((fs w)(src := None))(dst \<mapsto> f)\<rparr>))"

text \<open>
  Modelled from the spec: \<^verbatim>\<open>tensor_helpers.save_inputs\<close> is not in the sources.
  The named-input mappings are serialized to the file at the given path, which they
  replace; the encoding of the tensors is left to the library.
\<close>

definition save_inputs :: "inputs_dict list \<Rightarrow> path \<Rightarrow> world \<Rightarrow> world" where
  "save_inputs ins inputs_file w = w\<lparr>fs := (fs w)(inputs_file \<mapsto> InputsFile ins)\<rparr>"

text \<open>\<^verbatim>\<open>state.intermediate_results[0]\<close>\<close>

definition first_result :: "build_state \<Rightarrow> error + path" where
  "first_result state =
     (case intermediate_results state of
        [] \<Rightarrow> Inl (IndexError ''list index out of range'')
      | p # _ \<Rightarrow> Inr p)"

subsection \<open>The artifact validator\<close>

text \<open>
  \<^verbatim>\<open>_check_model\<close> (a name cannot start with an underscore here). The
  \<^verbatim>\<open>try\<close> catches \<^verbatim>\<open>onnx.checker.ValidationError\<close> and nothing else: an
  exception of another class leaves the function, after the success message was printed.
  The result is the boolean returned or the exception raised, with the world at that moment.
\<close>

definition check_model ::
  "env \<Rightarrow> world \<Rightarrow> path \<Rightarrow> string \<Rightarrow> string \<Rightarrow> (error + bool) \<times> world" where
  "check_model e w onnx_file success_message fail_message =
     (if isfile w onnx_file then
        (let w1 = print success_message w in
         case onnx_checker_check_model e w1 onnx_file of
           Passed \<Rightarrow> (Inr True, print (CHR 0x09 # ''Successfully checked onnx file'') w1)
         | ValidationError err \<Rightarrow>
             (Inr False, print err (print (CHR 0x09 # ''Error while checking generated ONNX file'') w1))
         | CheckerRaised err \<Rightarrow> (Inl (CheckerError err), w1))
      else (Inr False, print fail_message w))"

subsection \<open>ReceiveOnnxModel\<close>

definition advisory :: string where
  "advisory =
     '' '' @ [CHR 0x0A] @ '' The received model has an opset {opset}. Though this opset is supported ''
     @ replicate 16 CHR '' '' @ ''we recommend upgrading the model to opset {build.MINIMUM_ONNX_OPSET}''"

definition dynamic_msg :: "env \<Rightarrow> string" where
  "dynamic_msg e = message 20
     [''The received model has dynamic input dimensions. Please freeze the model with static'',
      ''input dimensions.'',
      ''More information may be available in the log file at **'' @ logfile_path e @ ''**'']"

definition opset_msg :: "env \<Rightarrow> int \<Rightarrow> string" where
  "opset_msg e v = message 12
     [''The received model has an opset '' @ str_nat (nat v) @ ''. Opset < 11 is not supported. Please'',
      ''try upgrading the model to opset 13.'',
      ''More information may be available in the log file at **'' @ logfile_path e @ ''**'']"

definition receive_failed_msg :: "env \<Rightarrow> string" where
  "receive_failed_msg e = message 12
     [''Unable to process ONNX Model. We recommend that you verify the source of the model.'',
      ''Any optimizations performed on the model could result in an error.'',
      ''More information may be available in the log file at **'' @ logfile_path e @ ''**'']"

text \<open>
  The loops over \<^verbatim>\<open>input_shapes\<close>: some dimension is below 1 (a
  \<^verbatim>\<open>dim_value\<close> is always an \<^verbatim>\<open>int\<close>, so the \<^verbatim>\<open>isinstance\<close> test
  adds nothing).
\<close>

definition has_dynamic_dim :: "int list list \<Rightarrow> bool" where
  "has_dynamic_dim input_shapes = list_ex (\<lambda>input. list_ex (\<lambda>dimension. dimension < 1) input) input_shapes"

definition ReceiveOnnxModel_fire :: "env \<Rightarrow> build_state \<Rightarrow> world \<Rightarrow> outcome \<times> build_state \<times> world" where
  "ReceiveOnnxModel_fire e state w =
     (case model state of
        PathStr src \<Rightarrow>
          if \<not> endswith src ''.onnx'' then
            (Raised (GroqitStageError (message 12
               [''The current stage (ReceiveOnnxModel) expects a path to ONNX'',
                ''model, however the stage received '' @ src @ ''.''])), state, w)
          else
            let dummy_inputs = values_of (inputs state);
                dummy_input_names = keys (inputs state);
                state1 = state\<lparr>inputs := dict (zip dummy_input_names dummy_inputs)\<rparr>
            in
            (case onnx_load w src of
               Inl err \<Rightarrow> (Raised err, state1, w)
             | Inr m \<Rightarrow>
                 (case re_search_digits (str_opset_import (opset_import m)) of
                    None \<Rightarrow>
                      (Raised (AttributeError ''NoneType object has no attribute group''), state1, w)
                  | Some ds \<Rightarrow>
                      let opset = int_of_digits ds in
                      if has_dynamic_dim (graph_input_dims m) then
                        (Raised (GroqitStageError (dynamic_msg e)), state1, w)
                      else
                        (case (if opset < DEFAULT_ONNX_OPSET e \<and> MINIMUM_ONNX_OPSET e \<le> opset
                               then Inr (print advisory w)
                               else if opset < MINIMUM_ONNX_OPSET e
                               then Inl (GroqitStageError (opset_msg e opset))
                               else Inr w) of
                           Inl err \<Rightarrow> (Raised err, state1, w)
                         | Inr w1 \<Rightarrow>
                             (case shutil_move src (base_onnx_file state1) w1 of
                                Inl err \<Rightarrow> (Raised err, state1, w1)
                              | Inr w2 \<Rightarrow>
                                  let w3 = save_inputs [inputs state1] (original_inputs_file state1) w2;
                                      (checked, w4) = check_model e w3 (base_onnx_file state1)
                                                        (CHR 0x09 # ''Success receiving ONNX Model'')
                                                        (CHR 0x09 # ''Failed receiving ONNX Model'')
                                  in
                                  (case checked of
                                     Inl err \<Rightarrow> (Raised err, state1, w4)
                                   | Inr ok \<Rightarrow>
                                       let state2 = state1\<lparr>info := (info state1)
                                                      \<lparr>base_onnx_exported := Some ok\<rparr>\<rparr>
                                       in if ok
                                          then (Returned,
                                                state2\<lparr>intermediate_results := [base_onnx_file state2]\<rparr>, w4)
                                          else (Raised (GroqitStageError (receive_failed_msg e)),
                                                state2, w4))))))
      | other \<Rightarrow>
          (Raised (GroqitStageError (message 12
             [''The current stage (ReceiveOnnxModel) is only compatible with'',
              ''ONNX files, however the stage received a model of type'',
              type_repr other @ ''.''])), state, w))"

subsection \<open>ExportPytorchModel\<close>

definition mismatch_msg :: "string \<Rightarrow> string list \<Rightarrow> string" where
  "mismatch_msg inp all_args = message 20
     [''Input name '' @ inp @ '' not found in the model'' @ [CHR 0x27] @ ''s forward method. Available'',
      ''inputs are: '' @ repr_list all_args @ [CHR 0x22]]"

definition export_failed_msg :: "env \<Rightarrow> string" where
  "export_failed_msg e = message 12
     [''Unable to export model to ONNX using Torch'' @ [CHR 0x27] @ ''s ONNX exporter.'',
      ''We recommend that you modify your model until it is'',
      ''compatible with this third party software, then re-run groqit().'',
      ''More information may be available in the log file at **'' @ logfile_path e @ ''**'']"

text \<open>
  Lines 160 to 184: the positional values and their names, or the \<^verbatim>\<open>ValueError\<close>
  of the first user-provided name that \<^verbatim>\<open>forward\<close> does not declare. A
  \<^verbatim>\<open>ScriptModule\<close> takes the first branch.
\<close>

definition positional_inputs :: "build_state \<Rightarrow> error + (tensor option list \<times> string list)" where
  "positional_inputs state =
     (case model state of
        ScriptModule _ _ \<Rightarrow> Inr (values_of (inputs state), keys (inputs state))
      | NNModule all_args _ \<Rightarrow>
          (let user_provided_args = keys (inputs state) in
           case find (\<lambda>inp. inp \<notin> set all_args) user_provided_args of
             Some inp \<Rightarrow> Inl (ValueError (mismatch_msg inp all_args))
           | None \<Rightarrow>
               Inr (map (\<lambda>arg. if arg \<in> set user_provided_args
                                then (case map_of (inputs state) arg of Some v \<Rightarrow> v | None \<Rightarrow> None)
                                else None) all_args,
                    all_args))
      | _ \<Rightarrow> Inr ([], []))"

definition ExportPytorchModel_fire :: "env \<Rightarrow> build_state \<Rightarrow> world \<Rightarrow> outcome \<times> build_state \<times> world" where
  "ExportPytorchModel_fire e state w =
     (if \<not> (case model state of NNModule _ _ \<Rightarrow> True | ScriptModule _ _ \<Rightarrow> True | _ \<Rightarrow> False) then
        (Raised (GroqitStageError (message 12
           [''The current stage (ExportPytorchModel) is only compatible with'',
            ''models of type torch.nn.Module or torch.jit.ScriptModule, however'',
            ''the stage received a model of type '' @ type_repr (model state) @ ''.''])), state, w)
      else
        (case positional_inputs state of
           Inl err \<Rightarrow> (Raised err, state, w)
         | Inr (dummy_inputs, dummy_input_names) \<Rightarrow>
             let state1 = state\<lparr>info := (info state)\<lparr>opset := Some (DEFAULT_ONNX_OPSET e)\<rparr>\<rparr>;
                 w1 = w\<lparr>export_calls := export_calls w @
                        [\<lparr>call_model = model state1, call_args = dummy_inputs,
                          call_path = base_onnx_file state1, call_input_names = dummy_input_names,
                          call_opset_version = DEFAULT_ONNX_OPSET e\<rparr>]\<rparr>
             in
             (case torch_onnx_export e (model state1) dummy_inputs dummy_input_names (DEFAULT_ONNX_OPSET e) of
                Inl err \<Rightarrow> (Raised (ExternalError err), state1, w1)
              | Inr m \<Rightarrow>
                  let w2 = w1\<lparr>fs := (fs w1)(base_onnx_file state1 \<mapsto> OnnxFile m)\<rparr>;
                      state2 = state1\<lparr>inputs := dict (zip dummy_input_names dummy_inputs)\<rparr>;
                      w3 = save_inputs [inputs state2] (original_inputs_file state2) w2;
                      (checked, w4) = check_model e w3 (base_onnx_file state2)
                                        (CHR 0x09 # ''Success exporting model to ONNX'')
                                        (CHR 0x09 # ''Failed exporting model to ONNX'')
                  in
                  (case checked of
                     Inl err \<Rightarrow> (Raised err, state2, w4)
                   | Inr ok \<Rightarrow>
                       let state3 = state2\<lparr>info := (info state2)\<lparr>base_onnx_exported := Some ok\<rparr>\<rparr>
                       in if ok
                          then (Returned, state3\<lparr>intermediate_results := [base_onnx_file state3]\<rparr>, w4)
                          else (Raised (GroqitStageError (export_failed_msg e)), state3, w4)))))"

subsection \<open>OptimizeOnnxModel\<close>

definition optimize_failed_msg :: "env \<Rightarrow> string" where
  "optimize_failed_msg e = message 12
     [''Unable to optimize ONNX file using ONNX runtime.'',
      ''We recommend that you modify your model until it is'',
      ''compatible with this third party software, then re-run groqit().'',
      ''More information may be available in the log file at **'' @ logfile_path e @ ''**'']"

definition OptimizeOnnxModel_fire :: "env \<Rightarrow> build_state \<Rightarrow> world \<Rightarrow> outcome \<times> build_state \<times> world" where
  "OptimizeOnnxModel_fire e state w =
     (case first_result state of
        Inl err \<Rightarrow> (Raised err, state, w)
      | Inr input_onnx \<Rightarrow>
          (case onnx_load w input_onnx of
             Inl err \<Rightarrow> (Raised err, state, w)
           | Inr m \<Rightarrow>
               (case ort_optimize e m of
                  Inl err \<Rightarrow> (Raised (ExternalError err), state, w)
                | Inr m' \<Rightarrow>
                    let w1 = w\<lparr>fs := (fs w)(opt_onnx_file state \<mapsto> OnnxFile m')\<rparr>;
                        (checked, w2) = check_model e w1 (opt_onnx_file state)
                                          (CHR 0x09 # ''Success optimizing ONNX model'')
                                          (CHR 0x09 # ''Failed optimizing ONNX model'')
                    in
                    (case checked of
                       Inl err \<Rightarrow> (Raised err, state, w2)
                     | Inr ok \<Rightarrow>
                         let state1 = state\<lparr>info := (info state)\<lparr>opt_onnx_exported := Some ok\<rparr>\<rparr>
                         in if ok
                            then (Returned, state1\<lparr>intermediate_results := [opt_onnx_file state1]\<rparr>, w2)
                            else (Raised (GroqitStageError (optimize_failed_msg e)), state1, w2)))))"

subsection \<open>CheckOnnxCompatibility\<close>

definition unsupported_msg :: "string list \<Rightarrow> string" where
  "unsupported_msg unsupported = message 12
     [''You model contains ONNX operation(s) that are not supported by Groq Compiler:'',
      ''**'' @ join '', '' unsupported @ ''**'',
      ''Please replace these operation(s) in your model or contact'',
      ''sales@groq.com to request improved operation support in Groq Compiler.'']"

definition CheckOnnxCompatibility_fire :: "env \<Rightarrow> build_state \<Rightarrow> world \<Rightarrow> outcome \<times> build_state \<times> world" where
  "CheckOnnxCompatibility_fire e state w =
     (case sdk_check_dependencies e True of
        Some err \<Rightarrow> (Raised (GroqitStageError err), state, w)
      | None \<Rightarrow>
          (case first_result state of
             Inl err \<Rightarrow> (Raised err, state, w)
           | Inr input_onnx \<Rightarrow>
               (case onnx_load w input_onnx of
                  Inl err \<Rightarrow> (Raised err, state, w)
                | Inr m \<Rightarrow>
                    (case check_ops e m (use_sdk state) of
                       Inl err \<Rightarrow> (Raised (ExternalError err), state, w)
                     | Inr (ops, unsupported) \<Rightarrow>
                         let state1 = state\<lparr>info := (info state)
                                        \<lparr>opt_onnx_ops := Some ops,
                                         opt_onnx_unsupported_ops := Some unsupported\<rparr>\<rparr>;
                             w1 = print (''Model has '' @ str_nat (length unsupported) @ '' unsupported ops'') w;
                             all_supported = (length unsupported = 0 \<and> length ops \<noteq> 0);
                             state2 = state1\<lparr>info := (info state1)
                                        \<lparr>opt_onnx_all_ops_supported := Some all_supported\<rparr>\<rparr>
                         in if \<not> all_supported
                            then (Raised (GroqitStageError (unsupported_msg unsupported)), state2, w1)
                            else (Returned, state2, w1)))))"

subsection \<open>ConvertOnnxToFp16\<close>

definition convert_failed_msg :: "env \<Rightarrow> string" where
  "convert_failed_msg e = message 12
     [''Attempted to use onnxmltools, a third party library, to convert your'',
      ''model to the float16 datatype, however this operation was not successful.'',
      ''More information may be available in the log file at **'' @ logfile_path e @ ''**'']"

definition ConvertOnnxToFp16_fire :: "env \<Rightarrow> build_state \<Rightarrow> world \<Rightarrow> outcome \<times> build_state \<times> world" where
  "ConvertOnnxToFp16_fire e state w =
     (case first_result state of
        Inl err \<Rightarrow> (Raised err, state, w)
      | Inr input_onnx \<Rightarrow>
          (case onnx_load w input_onnx of
             Inl err \<Rightarrow> (Raised err, state, w)
           | Inr fp32_model \<Rightarrow>
               (case convert_float_to_float16 e fp32_model of
                  Inl err \<Rightarrow> (Raised (ExternalError err), state, w)
                | Inr fp16_model \<Rightarrow>
                    let output_path = converted_onnx_file state;
                        w1 = w\<lparr>fs := (fs w)(output_path \<mapsto> OnnxFile fp16_model)\<rparr>;
                        (checked, w2) = check_model e w1 (converted_onnx_file state)
                                          (CHR 0x09 # ''Success converting ONNX model to fp16'')
                                          (CHR 0x09 # ''Failed converting ONNX model to fp16'')
                    in
                    (case checked of
                       Inl err \<Rightarrow> (Raised err, state, w2)
                     | Inr ok \<Rightarrow>
                         let state1 = state\<lparr>info := (info state)\<lparr>converted_onnx_exported := Some ok\<rparr>\<rparr>
                         in if ok
                            then (Returned, state1\<lparr>intermediate_results := [output_path]\<rparr>, w2)
                            else (Raised (GroqitStageError (convert_failed_msg e)), state1, w2)))))"

subsection \<open>The stages\<close>

datatype stage =
    ReceiveOnnxModel
  | ExportPytorchModel
  | OptimizeOnnxModel
  | CheckOnnxCompatibility
  | ConvertOnnxToFp16

fun fire :: "env \<Rightarrow> stage \<Rightarrow> build_state \<Rightarrow> world \<Rightarrow> outcome \<times> build_state \<times> world" where
  "fire e ReceiveOnnxModel = ReceiveOnnxModel_fire e"
| "fire e ExportPytorchModel = ExportPytorchModel_fire e"
| "fire e OptimizeOnnxModel = OptimizeOnnxModel_fire e"
| "fire e CheckOnnxCompatibility = CheckOnnxCompatibility_fire e"
| "fire e ConvertOnnxToFp16 = ConvertOnnxToFp16_fire e"

subsection \<open>What a stage owns\<close>

text \<open>
  The artifact slot of a stage, the paths at which a stage changes the file system (its
  slot, the file of the saved inputs, and the source that \<^verbatim>\<open>shutil.move\<close> takes
  away), and the fields of \<^verbatim>\<open>state.info\<close> it assigns, here reset so that two
  records can be compared on the other fields.
\<close>

fun own_slot :: "stage \<Rightarrow> build_state \<Rightarrow> path option" where
  "own_slot ReceiveOnnxModel state = Some (base_onnx_file state)"
| "own_slot ExportPytorchModel state = Some (base_onnx_file state)"
| "own_slot OptimizeOnnxModel state = Some (opt_onnx_file state)"
| "own_slot CheckOnnxCompatibility state = None"
| "own_slot ConvertOnnxToFp16 state = Some (converted_onnx_file state)"

fun touched_paths :: "stage \<Rightarrow> build_state \<Rightarrow> path list" where
  "touched_paths ReceiveOnnxModel state =
     (case model state of PathStr src \<Rightarrow> [src] | _ \<Rightarrow> []) @
     [base_onnx_file state, original_inputs_file state]"
| "touched_paths ExportPytorchModel state = [base_onnx_file state, original_inputs_file state]"
| "touched_paths OptimizeOnnxModel state = [opt_onnx_file state]"
| "touched_paths CheckOnnxCompatibility state = []"
| "touched_paths ConvertOnnxToFp16 state = [converted_onnx_file state]"

fun clear_own :: "stage \<Rightarrow> build_info \<Rightarrow> build_info" where
  "clear_own ReceiveOnnxModel i = i\<lparr>base_onnx_exported := None\<rparr>"
| "clear_own ExportPytorchModel i = i\<lparr>base_onnx_exported := None, opset := None\<rparr>"
| "clear_own OptimizeOnnxModel i = i\<lparr>opt_onnx_exported := None\<rparr>"
| "clear_own CheckOnnxCompatibility i =
     i\<lparr>opt_onnx_ops := None, opt_onnx_unsupported_ops := None, opt_onnx_all_ops_supported := None\<rparr>"
| "clear_own ConvertOnnxToFp16 i = i\<lparr>converted_onnx_exported := None\<rparr>"

definition same_paths :: "build_state \<Rightarrow> build_state \<Rightarrow> bool" where
  "same_paths s' s =
     (model s' = model s \<and> base_onnx_file s' = base_onnx_file s \<and> opt_onnx_file s' = opt_onnx_file s
      \<and> converted_onnx_file s' = converted_onnx_file s
      \<and> original_inputs_file s' = original_inputs_file s \<and> use_sdk s' = use_sdk s)"

text \<open>
  The errors a stage raises once its transformation has run: the stage error of its final
  check (for the operator check, the one that names the unsupported operators recorded in
  \<^verbatim>\<open>state.info\<close>) and an exception of the checker; and the exception of the
  exporter, raised by the exporting stage after it has set the opset.
\<close>

fun final_check_error :: "env \<Rightarrow> stage \<Rightarrow> build_state \<Rightarrow> error \<Rightarrow> bool" where
  "final_check_error e ReceiveOnnxModel state' err = (err = GroqitStageError (receive_failed_msg e))"
| "final_check_error e ExportPytorchModel state' err = (err = GroqitStageError (export_failed_msg e))"
| "final_check_error e OptimizeOnnxModel state' err = (err = GroqitStageError (optimize_failed_msg e))"
| "final_check_error e CheckOnnxCompatibility state' err =
     (case opt_onnx_unsupported_ops (info state') of
        Some unsupported \<Rightarrow> err = GroqitStageError (unsupported_msg unsupported)
      | None \<Rightarrow> False)"
| "final_check_error e ConvertOnnxToFp16 state' err = (err = GroqitStageError (convert_failed_msg e))"

definition checker_error :: "error \<Rightarrow> bool" where
  "checker_error err = (case err of CheckerError msg \<Rightarrow> True | _ \<Rightarrow> False)"

definition exporter_error :: "stage \<Rightarrow> error \<Rightarrow> bool" where
  "exporter_error s err = (s = ExportPytorchModel \<and> (case err of ExternalError msg \<Rightarrow> True | _ \<Rightarrow> False))"

text \<open>
  The artifact slots of a build, and what makes them dedicated: the three paths, the path
  of the saved inputs and the path of a received model are pairwise different.
\<close>

definition artifact_slots :: "build_state \<Rightarrow> path list" where
  "artifact_slots state = [base_onnx_file state, opt_onnx_file state, converted_onnx_file state]"

definition dedicated_slots :: "build_state \<Rightarrow> bool" where
  "dedicated_slots state =
     distinct (artifact_slots state @ [original_inputs_file state] @
               (case model state of PathStr src \<Rightarrow> [src] | _ \<Rightarrow> []))"

subsection \<open>A build to run the stages on\<close>

definition sample_model :: onnx_model where
  "sample_model =
     \<lparr>opset_import = [\<lparr>domain = None, version = Some 13\<rparr>],
      graph_input_names = [''x''],
      graph_input_dims = [[1, 3, 224, 224]],
      graph_nodes = [''Conv'', ''Relu'']\<rparr>"

text \<open>
  An exporter that shows in the model it writes what it was given: the graph inputs have
  the input names and the shapes of the positional values (no dimension for \<open>None\<close>),
  the opset is the version asked for.
\<close>

definition traced_model :: "model_ref \<Rightarrow> tensor option list \<Rightarrow> string list \<Rightarrow> int \<Rightarrow> string + onnx_model" where
  "traced_model mdl args names v =
     Inr \<lparr>opset_import = [\<lparr>domain = None, version = Some v\<rparr>],
          graph_input_names = names,
          graph_input_dims = map (\<lambda>a. case a of None \<Rightarrow> [] | Some t \<Rightarrow> map int (tensor_shape t)) args,
          graph_nodes = [''Conv'', ''Relu'']\<rparr>"

definition catalogue :: "string list" where
  "catalogue = [''Conv'', ''Relu'', ''Add'']"

definition sample_env :: env where
  "sample_env =
     \<lparr>DEFAULT_ONNX_OPSET = 14, MINIMUM_ONNX_OPSET = 11, logfile_path = ''log.txt'',
      onnx_checker = (\<lambda>m. if graph_nodes m = [] then ValidationError ''graph has no nodes'' else Passed),
      torch_onnx_export = traced_model,
      ort_optimize = (\<lambda>m. Inr m),
      convert_float_to_float16 = (\<lambda>m. Inr m),
      sdk_check_dependencies = (\<lambda>devtools. None),
      check_ops = (\<lambda>m sdk. Inr (graph_nodes m, filter (\<lambda>op. op \<notin> set catalogue) (graph_nodes m)))\<rparr>"

text \<open>The same libraries, with a checker that fails with an exception of its own.\<close>

definition crashing_env :: env where
  "crashing_env = sample_env\<lparr>onnx_checker := (\<lambda>m. CheckerRaised ''RuntimeError'')\<rparr>"

text \<open>And with development tools that are missing, or an operator check that fails.\<close>

definition no_devtools_env :: env where
  "no_devtools_env = sample_env\<lparr>sdk_check_dependencies := (\<lambda>devtools. Some ''GroqWare Suite not found'')\<rparr>"

definition no_oracle_env :: env where
  "no_oracle_env = sample_env\<lparr>check_ops := (\<lambda>m sdk. Inl ''cannot run the operator check'')\<rparr>"

text \<open>And with an exporter that fails.\<close>

definition no_export_env :: env where
  "no_export_env = sample_env\<lparr>torch_onnx_export := (\<lambda>mdl args names v. Inl ''cannot trace the model'')\<rparr>"

definition empty_info :: build_info where
  "empty_info =
     \<lparr>base_onnx_exported = None, opset = None, opt_onnx_exported = None, opt_onnx_ops = None,
      opt_onnx_unsupported_ops = None, opt_onnx_all_ops_supported = None,
      converted_onnx_exported = None\<rparr>"

definition sample_state :: "model_ref \<Rightarrow> path list \<Rightarrow> build_state" where
  "sample_state mdl results =
     \<lparr>model = mdl, inputs = [(''x'', Some (Tensor [1, 3, 224, 224] []))],
      base_onnx_file = ''base.onnx'', opt_onnx_file = ''opt.onnx'',
      converted_onnx_file = ''f16.onnx'', original_inputs_file = ''inputs.npy'',
      intermediate_results = results, use_sdk = False, info = empty_info\<rparr>"

definition sample_world :: "path \<Rightarrow> onnx_model \<Rightarrow> world" where
  "sample_world p m = \<lparr>fs = (\<lambda>q. None)(p \<mapsto> OnnxFile m), stdout = [], export_calls = []\<rparr>"

text \<open>One more model file in the world.\<close>

definition with_file :: "path \<Rightarrow> onnx_model \<Rightarrow> world \<Rightarrow> world" where
  "with_file p m w = w\<lparr>fs := (fs w)(p \<mapsto> OnnxFile m)\<rparr>"

section \<open>Properties\<close>

subsection \<open>Auxiliary facts\<close>

lemma print_simps [simp]:
  "fs (print s w) = fs w" "export_calls (print s w) = export_calls w"
  "stdout (print s w) = stdout w @ [s]"
  by (simp_all add: print_def)

lemma checker_after_print: "onnx_checker_check_model e (print s w) p = onnx_checker_check_model e w p"
  by (simp add: onnx_checker_check_model_def)

lemma check_model_fs: "fs (snd (check_model e w p s f)) = fs w"
  by (simp add: check_model_def Let_def split: checker_result.splits)

lemma check_model_calls: "export_calls (snd (check_model e w p s f)) = export_calls w"
  by (simp add: check_model_def Let_def split: checker_result.splits)

lemma check_model_result:
  "fst (check_model e w p s f) =
     (case fs w p of
        Some (OnnxFile m) \<Rightarrow>
          (case onnx_checker e m of
             Passed \<Rightarrow> Inr True
           | ValidationError msg \<Rightarrow> Inr False
           | CheckerRaised msg \<Rightarrow> Inl (CheckerError msg))
      | _ \<Rightarrow> Inr False)"
  by (auto simp: check_model_def isfile_def checker_after_print Let_def onnx_checker_check_model_def
        split: option.splits file_content.splits checker_result.splits)

lemma check_model_stdout:
  "fst (check_model e w p s f) = Inr True \<Longrightarrow>
     stdout (snd (check_model e w p s f)) = stdout w @ [s, CHR 0x09 # ''Successfully checked onnx file'']"
  by (simp add: check_model_def Let_def split: checker_result.splits if_splits)

subsection \<open>The opset that the receiving stage reads\<close>

lemma is_digit_char_of: "k < 10 \<Longrightarrow> is_digit (char_of (48 + (k::nat)))"
  by (simp add: is_digit_def)

lemma str_nat_digits: "c \<in> set (str_nat n) \<Longrightarrow> is_digit c"
proof (induction n arbitrary: c rule: str_nat.induct)
  case (1 n)
  show ?case
  proof (cases "n < 10")
    case True
    with 1(2) show ?thesis by (simp add: str_nat.simps [of n] is_digit_char_of)
  next
    case False
    with 1 show ?thesis
      by (auto simp: str_nat.simps [of n] is_digit_char_of)
  qed
qed

lemma str_nat_not_empty: "str_nat n \<noteq> []"
  by (simp add: str_nat.simps [of n])

lemma int_of_digits_snoc:
  "int_of_digits (ds @ [c]) = 10 * int_of_digits ds + (int (of_char c) - 48)"
  by (simp add: int_of_digits_def)

lemma int_of_digits_str_nat: "int_of_digits (str_nat n) = int n"
proof (induction n rule: str_nat.induct)
  case (1 n)
  show ?case
  proof (cases "n < 10")
    case True
    then show ?thesis by (simp add: str_nat.simps [of n] int_of_digits_def)
  next
    case False
    with 1 have "int_of_digits (str_nat (n div 10)) = int (n div 10)" by simp
    then have "int_of_digits (str_nat n) = 10 * int (n div 10) + int (n mod 10)"
      using False by (simp add: str_nat.simps [of n] int_of_digits_snoc)
    moreover have "10 * int (n div 10) + int (n mod 10) = int n" by presburger
    ultimately show ?thesis by simp
  qed
qed

lemma re_search_digits_run:
  assumes "\<And>x. x \<in> set pre \<Longrightarrow> \<not> is_digit x" and "ds \<noteq> []"
    and "\<And>x. x \<in> set ds \<Longrightarrow> is_digit x" and "\<not> is_digit c"
  shows "re_search_digits (pre @ ds @ c # post) = Some ds"
proof -
  have a: "dropWhile (\<lambda>c. \<not> is_digit c) (pre @ ds @ c # post) = ds @ c # post"
  proof -
    have "dropWhile (\<lambda>c. \<not> is_digit c) (pre @ ds @ c # post)
            = dropWhile (\<lambda>c. \<not> is_digit c) (ds @ c # post)"
      using assms(1) by (simp add: dropWhile_append2)
    also have "\<dots> = ds @ c # post"
      using assms(2,3) by (cases ds) simp_all
    finally show ?thesis .
  qed
  have b: "takeWhile is_digit (ds @ c # post) = ds"
    using assms(3,4) by (simp add: takeWhile_append2)
  show ?thesis using a b assms(2) by (simp add: re_search_digits_def)
qed

lemma join_cons: "\<exists>t. join sep (x # xs) = x @ t"
  by (cases xs) simp_all

lemma re_search_first_import:
  assumes "version i = Some v" and "0 \<le> v"
    and "\<And>x. x \<in> set (case domain i of None \<Rightarrow> [] | Some d \<Rightarrow> d) \<Longrightarrow> \<not> is_digit x"
  shows "re_search_digits (str_opset_import (i # imports)) = Some (str_nat (nat v))"
proof -
  obtain t where t: "join '', '' (map str_opset_id (i # imports)) = str_opset_id i @ t"
    using join_cons [of "'', ''" "str_opset_id i" "map str_opset_id imports"] by auto
  define d where "d = (case domain i of None \<Rightarrow> [] | Some d \<Rightarrow> ''domain: '' @ [CHR 0x22] @ d @ [CHR 0x22, CHR 0x0A])"
  have i: "str_opset_id i = d @ ''version: '' @ str_nat (nat v) @ [CHR 0x0A]"
    using assms(1,2) by (simp add: str_opset_id_def d_def str_int_def)
  have n: "\<And>x. x \<in> set (''['' @ d @ ''version: '') \<Longrightarrow> \<not> is_digit x"
    using assms(3) by (auto simp: d_def is_digit_def split: option.splits)
  have "str_opset_import (i # imports)
          = (''['' @ d @ ''version: '') @ str_nat (nat v) @ CHR 0x0A # (t @ '']'')"
    using t i by (simp add: str_opset_import_def)
  moreover have "re_search_digits ((''['' @ d @ ''version: '') @ str_nat (nat v) @ CHR 0x0A # (t @ '']''))
          = Some (str_nat (nat v))"
    by (rule re_search_digits_run [OF n str_nat_not_empty str_nat_digits]) (simp_all add: is_digit_def)
  ultimately show ?thesis by simp
qed

lemma parse_first_import:
  "0 \<le> v \<Longrightarrow> list_all (\<lambda>x. \<not> is_digit x) (case dm of None \<Rightarrow> [] | Some d \<Rightarrow> d) \<Longrightarrow>
     re_search_digits (str_opset_import (\<lparr>domain = dm, version = Some v\<rparr> # imports))
       = Some (str_nat (nat v))"
  by (rule re_search_first_import) (simp_all add: list_all_iff)

lemma parse_no_import: "re_search_digits (str_opset_import []) = None"
  by (simp add: str_opset_import_def re_search_digits_def is_digit_def)

subsection \<open>What a stage leaves alone\<close>

lemmas fire_splits = model_ref.splits if_splits sum.splits option.splits

lemmas eval_defs =
  sample_state_def sample_world_def sample_env_def sample_model_def empty_info_def
  endswith_def keys_def values_of_def dict_def onnx_load_def parse_first_import parse_no_import
  int_of_digits_str_nat has_dynamic_dim_def Let_def shutil_move_def save_inputs_def first_result_def
  case_prod_beta isfile_def catalogue_def

lemma receive_state_frame:
  "ReceiveOnnxModel_fire e state w = (out, state', w') \<Longrightarrow>
     same_paths state' state
     \<and> clear_own ReceiveOnnxModel (info state') = clear_own ReceiveOnnxModel (info state)
     \<and> (out \<noteq> Returned \<longrightarrow> intermediate_results state' = intermediate_results state)"
  by (auto simp: ReceiveOnnxModel_fire_def same_paths_def Let_def case_prod_beta
        split: fire_splits)

lemma receive_fs_frame:
  "ReceiveOnnxModel_fire e state w = (out, state', w') \<Longrightarrow>
     p \<notin> set (touched_paths ReceiveOnnxModel state) \<Longrightarrow> fs w' p = fs w p"
  by (auto simp: ReceiveOnnxModel_fire_def Let_def shutil_move_def save_inputs_def case_prod_beta
        check_model_fs split: fire_splits)

lemma export_state_frame:
  "ExportPytorchModel_fire e state w = (out, state', w') \<Longrightarrow>
     same_paths state' state
     \<and> clear_own ExportPytorchModel (info state') = clear_own ExportPytorchModel (info state)
     \<and> (out \<noteq> Returned \<longrightarrow> intermediate_results state' = intermediate_results state)"
  by (auto simp: ExportPytorchModel_fire_def same_paths_def Let_def case_prod_beta
        split: fire_splits)

lemma export_fs_frame:
  "ExportPytorchModel_fire e state w = (out, state', w') \<Longrightarrow>
     p \<notin> set (touched_paths ExportPytorchModel state) \<Longrightarrow> fs w' p = fs w p"
  by (auto simp: ExportPytorchModel_fire_def Let_def save_inputs_def case_prod_beta
        check_model_fs split: fire_splits)

lemma optimize_state_frame:
  "OptimizeOnnxModel_fire e state w = (out, state', w') \<Longrightarrow>
     same_paths state' state
     \<and> clear_own OptimizeOnnxModel (info state') = clear_own OptimizeOnnxModel (info state)
     \<and> (out \<noteq> Returned \<longrightarrow> intermediate_results state' = intermediate_results state)"
  by (auto simp: OptimizeOnnxModel_fire_def same_paths_def Let_def case_prod_beta
        split: fire_splits)

lemma optimize_fs_frame:
  "OptimizeOnnxModel_fire e state w = (out, state', w') \<Longrightarrow>
     p \<notin> set (touched_paths OptimizeOnnxModel state) \<Longrightarrow> fs w' p = fs w p"
  by (auto simp: OptimizeOnnxModel_fire_def Let_def case_prod_beta
        check_model_fs split: fire_splits)

lemma compat_state_frame:
  "CheckOnnxCompatibility_fire e state w = (out, state', w') \<Longrightarrow>
     same_paths state' state
     \<and> clear_own CheckOnnxCompatibility (info state') = clear_own CheckOnnxCompatibility (info state)
     \<and> intermediate_results state' = intermediate_results state"
  by (auto simp: CheckOnnxCompatibility_fire_def same_paths_def Let_def case_prod_beta
        split: fire_splits)

lemma compat_fs_frame:
  "CheckOnnxCompatibility_fire e state w = (out, state', w') \<Longrightarrow> fs w' = fs w"
  by (auto simp: CheckOnnxCompatibility_fire_def Let_def case_prod_beta
        split: fire_splits)

lemma convert_state_frame:
  "ConvertOnnxToFp16_fire e state w = (out, state', w') \<Longrightarrow>
     same_paths state' state
     \<and> clear_own ConvertOnnxToFp16 (info state') = clear_own ConvertOnnxToFp16 (info state)
     \<and> (out \<noteq> Returned \<longrightarrow> intermediate_results state' = intermediate_results state)"
  by (auto simp: ConvertOnnxToFp16_fire_def same_paths_def Let_def case_prod_beta
        split: fire_splits)

lemma convert_fs_frame:
  "ConvertOnnxToFp16_fire e state w = (out, state', w') \<Longrightarrow>
     p \<notin> set (touched_paths ConvertOnnxToFp16 state) \<Longrightarrow> fs w' p = fs w p"
  by (auto simp: ConvertOnnxToFp16_fire_def Let_def case_prod_beta
        check_model_fs split: fire_splits)

lemma fire_state_frame:
  "fire e s state w = (out, state', w') \<Longrightarrow>
     same_paths state' state \<and> clear_own s (info state') = clear_own s (info state)
     \<and> (out \<noteq> Returned \<longrightarrow> intermediate_results state' = intermediate_results state)"
  by (cases s)
     (auto dest: receive_state_frame export_state_frame optimize_state_frame compat_state_frame
        convert_state_frame)

lemma fire_fs_frame:
  "fire e s state w = (out, state', w') \<Longrightarrow> p \<notin> set (touched_paths s state) \<Longrightarrow> fs w' p = fs w p"
  by (cases s)
     (auto dest: receive_fs_frame export_fs_frame optimize_fs_frame compat_fs_frame convert_fs_frame)

lemma touched_paths_slots:
  "dedicated_slots state \<Longrightarrow> q \<in> set (artifact_slots state) \<Longrightarrow> own_slot s state \<noteq> Some q \<Longrightarrow>
     q \<notin> set (touched_paths s state)"
  by (cases s) (auto simp: dedicated_slots_def artifact_slots_def split: model_ref.splits)

lemma triple: "r = (fst r, fst (snd r), snd (snd r))"
  by simp

text \<open>Two runs of the receiving stage: a model that passes the checker, one that does not.\<close>

lemma receive_run_ok:
  "fst (fire sample_env ReceiveOnnxModel (sample_state (PathStr ''m.onnx'') [])
          (sample_world ''m.onnx'' sample_model)) = Returned"
  by (simp add: ReceiveOnnxModel_fire_def eval_defs check_model_result)

lemma receive_run_rejected:
  "fst (fire sample_env ReceiveOnnxModel (sample_state (PathStr ''m.onnx'') [])
          (sample_world ''m.onnx'' (sample_model\<lparr>graph_nodes := []\<rparr>)))
   = Raised (GroqitStageError (receive_failed_msg sample_env))"
  by (simp add: ReceiveOnnxModel_fire_def eval_defs check_model_result)

lemma optimize_run_ok:
  "fst (fire sample_env OptimizeOnnxModel (sample_state (PathStr ''m.onnx'') [''base.onnx''])
          (sample_world ''base.onnx'' sample_model)) = Returned"
  by (simp add: OptimizeOnnxModel_fire_def eval_defs check_model_result)

subsection \<open>The current artifact\<close>

text \<open>
  C7. A stage that has an artifact slot (every stage but the operator check) and whose
  \<^verbatim>\<open>fire\<close> returns leaves \<^verbatim>\<open>state.intermediate_results\<close> equal to the
  one-element list of that slot, whatever the list held before, and the file of the slot
  exists.
\<close>

theorem fire_returned_singleton:
  "fire e s state w = (Returned, state', w') \<Longrightarrow> own_slot s state = Some p \<Longrightarrow>
     intermediate_results state' = [p] \<and> isfile w' p"
  by (cases s)
     (auto simp: ReceiveOnnxModel_fire_def ExportPytorchModel_fire_def OptimizeOnnxModel_fire_def
        ConvertOnnxToFp16_fire_def CheckOnnxCompatibility_fire_def
        Let_def case_prod_beta check_model_fs check_model_result isfile_def
        split: fire_splits file_content.splits)

theorem fire_returned_singleton_witness:
  "fst (fire sample_env ReceiveOnnxModel (sample_state (PathStr ''m.onnx'') [])
          (sample_world ''m.onnx'' sample_model)) = Returned
   \<and> own_slot ReceiveOnnxModel (sample_state (PathStr ''m.onnx'') []) = Some ''base.onnx''
   \<and> intermediate_results (fst (snd (fire sample_env ReceiveOnnxModel
        (sample_state (PathStr ''m.onnx'') []) (sample_world ''m.onnx'' sample_model)))) = [''base.onnx'']
   \<and> isfile (snd (snd (fire sample_env ReceiveOnnxModel
        (sample_state (PathStr ''m.onnx'') []) (sample_world ''m.onnx'' sample_model)))) ''base.onnx''
   \<and> fst (fire sample_env OptimizeOnnxModel (sample_state (PathStr ''m.onnx'') [''base.onnx''])
          (sample_world ''base.onnx'' sample_model)) = Returned
   \<and> own_slot OptimizeOnnxModel (sample_state (PathStr ''m.onnx'') [''base.onnx'']) = Some ''opt.onnx''
   \<and> intermediate_results (fst (snd (fire sample_env OptimizeOnnxModel
        (sample_state (PathStr ''m.onnx'') [''base.onnx'']) (sample_world ''base.onnx'' sample_model))))
      = [''opt.onnx'']"
proof -
  let ?r = "fire sample_env ReceiveOnnxModel (sample_state (PathStr ''m.onnx'') [])
              (sample_world ''m.onnx'' sample_model)"
  let ?o = "fire sample_env OptimizeOnnxModel (sample_state (PathStr ''m.onnx'') [''base.onnx''])
              (sample_world ''base.onnx'' sample_model)"
  have r: "?r = (Returned, fst (snd ?r), snd (snd ?r))"
    using receive_run_ok triple [of ?r] by simp
  have o: "?o = (Returned, fst (snd ?o), snd (snd ?o))"
    using optimize_run_ok triple [of ?o] by simp
  have sr: "own_slot ReceiveOnnxModel (sample_state (PathStr ''m.onnx'') []) = Some ''base.onnx''"
    by (simp add: sample_state_def)
  have so: "own_slot OptimizeOnnxModel (sample_state (PathStr ''m.onnx'') [''base.onnx''])
            = Some ''opt.onnx''"
    by (simp add: sample_state_def)
  show ?thesis
    using fire_returned_singleton [OF r sr] fire_returned_singleton [OF o so]
      receive_run_ok optimize_run_ok sr so
    by simp
qed

subsection \<open>The slots of the other stages\<close>

text \<open>
  C9. Where the slots are dedicated (the three artifact paths, the path of the saved inputs
  and the path of a received model are pairwise different), a \<^verbatim>\<open>fire\<close> call,
  whether it returns or raises, leaves the file at every artifact slot that is not the
  stage's own as it was: the receiving and the exporting stage write of the three only
  \<^verbatim>\<open>base_onnx_file\<close>, the optimizing stage only \<^verbatim>\<open>opt_onnx_file\<close>, the
  converting stage only \<^verbatim>\<open>converted_onnx_file\<close>, the operator check none. The
  model, the path fields and \<^verbatim>\<open>use_sdk\<close> of the state are unchanged, and so is every
  field of \<^verbatim>\<open>state.info\<close> that is not the stage's own.
\<close>

theorem fire_other_slots_untouched:
  assumes "fire e s state w = (out, state', w')"
    and "dedicated_slots state"
    and "q \<in> set (artifact_slots state)"
    and "own_slot s state \<noteq> Some q"
  shows "fs w' q = fs w q \<and> same_paths state' state
         \<and> clear_own s (info state') = clear_own s (info state)"
  using assms fire_state_frame fire_fs_frame touched_paths_slots by blast

theorem fire_other_slots_untouched_witness:
  "dedicated_slots (sample_state (PathStr ''m.onnx'') [''base.onnx''])
   \<and> ''base.onnx'' \<in> set (artifact_slots (sample_state (PathStr ''m.onnx'') [''base.onnx'']))
   \<and> own_slot OptimizeOnnxModel (sample_state (PathStr ''m.onnx'') [''base.onnx'']) \<noteq> Some ''base.onnx''
   \<and> fs (snd (snd (fire sample_env OptimizeOnnxModel (sample_state (PathStr ''m.onnx'') [''base.onnx''])
          (sample_world ''base.onnx'' sample_model)))) ''base.onnx''
      = Some (OnnxFile sample_model)
   \<and> opt_onnx_file (fst (snd (fire sample_env OptimizeOnnxModel
          (sample_state (PathStr ''m.onnx'') [''base.onnx''])
          (sample_world ''base.onnx'' sample_model)))) = ''opt.onnx''"
proof -
  let ?s = "sample_state (PathStr ''m.onnx'') [''base.onnx'']"
  let ?o = "fire sample_env OptimizeOnnxModel ?s (sample_world ''base.onnx'' sample_model)"
  have d: "dedicated_slots ?s"
    by (simp add: dedicated_slots_def artifact_slots_def sample_state_def)
  have q: "''base.onnx'' \<in> set (artifact_slots ?s)"
    by (simp add: artifact_slots_def sample_state_def)
  have n: "own_slot OptimizeOnnxModel ?s \<noteq> Some ''base.onnx''"
    by (simp add: sample_state_def)
  show ?thesis
    using fire_other_slots_untouched [OF triple [of ?o] d q n] d q n
    by (simp add: same_paths_def sample_world_def sample_state_def)
qed

subsection \<open>Messages name what they report\<close>

lemma sublist_trans: "sublist a b \<Longrightarrow> sublist b c \<Longrightarrow> sublist a c"
  by (rule sublist_order.order.trans)

lemma sublist_mid: "sublist x (a @ x @ b)"
  unfolding sublist_def by blast

lemma sublist_join: "x \<in> set xs \<Longrightarrow> sublist x (join sep xs)"
proof (induction sep xs rule: join.induct)
  case (1 sep)
  then show ?case by simp
next
  case (2 sep y)
  then show ?case by simp
next
  case (3 sep y z zs)
  show ?case
  proof (cases "x = y")
    case True
    have "sublist y ([] @ y @ (sep @ join sep (z # zs)))" by (rule sublist_mid)
    then show ?thesis using True by simp
  next
    case False
    with 3 have a: "sublist x (join sep (z # zs))" by simp
    have "sublist (join sep (z # zs)) ((y @ sep) @ join sep (z # zs) @ [])" by (rule sublist_mid)
    then have "sublist (join sep (z # zs)) (join sep (y # z # zs))" by simp
    with a show ?thesis by (rule sublist_trans)
  qed
qed

lemma sublist_message: "l \<in> set ls \<Longrightarrow> sublist l (message n ls)"
proof -
  assume "l \<in> set ls"
  then obtain as bs where "ls = as @ l # bs" by (meson split_list)
  then have "message n ls =
      (concat (map (\<lambda>l. nl n @ l) as) @ nl n) @ l @ (concat (map (\<lambda>l. nl n @ l) bs) @ nl n)"
    by (simp add: message_def)
  then show ?thesis using sublist_mid by metis
qed

lemma unsupported_msg_names: "op \<in> set unsupported \<Longrightarrow> sublist op (unsupported_msg unsupported)"
proof -
  assume a: "op \<in> set unsupported"
  have "sublist (''**'' @ join '', '' unsupported @ ''**'') (unsupported_msg unsupported)"
    unfolding unsupported_msg_def by (rule sublist_message) simp
  moreover have "sublist (join '', '' unsupported) (''**'' @ join '', '' unsupported @ ''**'')"
    by (rule sublist_mid)
  ultimately have "sublist (join '', '' unsupported) (unsupported_msg unsupported)"
    using sublist_trans by blast
  with sublist_join [OF a] show ?thesis by (rule sublist_trans)
qed

subsection \<open>Input names that the model does not declare\<close>

lemma mismatch_msg_names:
  "sublist inp (mismatch_msg inp all_args) \<and> sublist (repr_list all_args) (mismatch_msg inp all_args)"
proof -
  let ?l1 = "''Input name '' @ inp @ '' not found in the model'' @ [CHR 0x27] @ ''s forward method. Available''"
  let ?l2 = "''inputs are: '' @ repr_list all_args @ [CHR 0x22]"
  have a: "sublist ?l1 (mismatch_msg inp all_args)"
    unfolding mismatch_msg_def by (rule sublist_message) simp
  have b: "sublist ?l2 (mismatch_msg inp all_args)"
    unfolding mismatch_msg_def by (rule sublist_message) simp
  have c: "sublist inp ?l1" by (rule sublist_mid)
  have d: "sublist (repr_list all_args) ?l2" by (rule sublist_mid)
  show ?thesis using sublist_trans [OF c a] sublist_trans [OF d b] by simp
qed

lemma repr_list_names: "a \<in> set all_args \<Longrightarrow> sublist a (repr_list all_args)"
proof -
  assume "a \<in> set all_args"
  then have "repr_str a \<in> set (map repr_str all_args)" by simp
  then have x: "sublist (repr_str a) (join '', '' (map repr_str all_args))"
    by (rule sublist_join)
  have y: "sublist a (repr_str a)"
    unfolding repr_str_def by (rule sublist_mid)
  have z: "sublist (join '', '' (map repr_str all_args)) (repr_list all_args)"
    unfolding repr_list_def by (rule sublist_mid)
  show ?thesis by (rule sublist_trans [OF sublist_trans [OF y x] z])
qed

lemma find_undeclared:
  "\<not> set ks \<subseteq> set all_args \<Longrightarrow>
     \<exists>inp. find (\<lambda>inp. inp \<notin> set all_args) ks = Some inp \<and> inp \<in> set ks \<and> inp \<notin> set all_args"
  by (induction ks) auto

text \<open>
  C4. For a \<^verbatim>\<open>torch.nn.Module\<close> that is not a script module and an inputs mapping
  with a name that is not a parameter of \<^verbatim>\<open>forward\<close>,
  \<^verbatim>\<open>ExportPytorchModel.fire\<close> raises for the first such name, before anything else
  happens: the state and the world, with its record of the calls of the exporter, are the
  ones it was given. The message holds the offending name and the printed list of the
  parameters, so every parameter name occurs in it. (The error is a Python
  \<^verbatim>\<open>ValueError\<close>, not a \<^verbatim>\<open>GroqitStageError\<close>.)
\<close>

theorem export_rejects_undeclared_input:
  assumes "model state = NNModule all_args cls"
    and "\<not> set (keys (inputs state)) \<subseteq> set all_args"
  shows "\<exists>inp. inp \<in> set (keys (inputs state)) \<and> inp \<notin> set all_args
           \<and> fire e ExportPytorchModel state w = (Raised (ValueError (mismatch_msg inp all_args)), state, w)
           \<and> sublist inp (mismatch_msg inp all_args)
           \<and> sublist (repr_list all_args) (mismatch_msg inp all_args)
           \<and> (\<forall>a \<in> set all_args. sublist a (mismatch_msg inp all_args))"
proof -
  from find_undeclared [OF assms(2)] obtain inp
    where f: "find (\<lambda>inp. inp \<notin> set all_args) (keys (inputs state)) = Some inp"
      and i: "inp \<in> set (keys (inputs state))" "inp \<notin> set all_args"
    by blast
  have r: "fire e ExportPytorchModel state w = (Raised (ValueError (mismatch_msg inp all_args)), state, w)"
    using assms(1) f by (simp add: ExportPytorchModel_fire_def positional_inputs_def)
  have n: "sublist inp (mismatch_msg inp all_args)"
    "sublist (repr_list all_args) (mismatch_msg inp all_args)"
    using mismatch_msg_names [of inp all_args] by simp_all
  have "sublist a (mismatch_msg inp all_args)" if "a \<in> set all_args" for a
    by (rule sublist_trans [OF repr_list_names [OF that] n(2)])
  then show ?thesis using i r n by (intro exI [of _ inp]) simp
qed

theorem export_rejects_undeclared_input_witness:
  "model (sample_state (NNModule [''input_ids'', ''mask''] ''Net'') []) = NNModule [''input_ids'', ''mask''] ''Net''
   \<and> \<not> set (keys (inputs (sample_state (NNModule [''input_ids'', ''mask''] ''Net'') [])))
         \<subseteq> set [''input_ids'', ''mask'']
   \<and> fire sample_env ExportPytorchModel (sample_state (NNModule [''input_ids'', ''mask''] ''Net'') [])
         (sample_world ''m.onnx'' sample_model)
       = (Raised (ValueError (mismatch_msg ''x'' [''input_ids'', ''mask''])),
          sample_state (NNModule [''input_ids'', ''mask''] ''Net'') [], sample_world ''m.onnx'' sample_model)
   \<and> sublist ''x'' (mismatch_msg ''x'' [''input_ids'', ''mask''])
   \<and> sublist ''input_ids'' (mismatch_msg ''x'' [''input_ids'', ''mask''])
   \<and> sublist ''mask'' (mismatch_msg ''x'' [''input_ids'', ''mask''])"
proof -
  let ?s = "sample_state (NNModule [''input_ids'', ''mask''] ''Net'') []"
  let ?w = "sample_world ''m.onnx'' sample_model"
  have m: "model ?s = NNModule [''input_ids'', ''mask''] ''Net''"
    by (simp add: sample_state_def)
  have k: "keys (inputs ?s) = [''x'']"
    by (simp add: sample_state_def keys_def)
  have n: "\<not> set (keys (inputs ?s)) \<subseteq> set [''input_ids'', ''mask'']"
    by (simp add: k)
  from export_rejects_undeclared_input [OF m n, of sample_env ?w] obtain inp where
    i: "inp \<in> set (keys (inputs ?s))"
    and r: "fire sample_env ExportPytorchModel ?s ?w
              = (Raised (ValueError (mismatch_msg inp [''input_ids'', ''mask''])), ?s, ?w)"
    and a: "sublist inp (mismatch_msg inp [''input_ids'', ''mask''])"
    and b: "\<forall>a \<in> set [''input_ids'', ''mask'']. sublist a (mismatch_msg inp [''input_ids'', ''mask''])"
    by blast
  from i have x: "inp = ''x''" by (simp add: k)
  show ?thesis using m n r a b unfolding x by simp
qed

subsection \<open>A model with dynamic input dimensions\<close>

lemma receive_dynamic_rejected:
  assumes "model state = PathStr src" and "endswith src ''.onnx''" and "onnx_load w src = Inr m"
    and "re_search_digits (str_opset_import (opset_import m)) = Some ds"
    and "has_dynamic_dim (graph_input_dims m)"
  shows "fst (ReceiveOnnxModel_fire e state w) = Raised (GroqitStageError (dynamic_msg e))
         \<and> snd (snd (ReceiveOnnxModel_fire e state w)) = w
         \<and> intermediate_results (fst (snd (ReceiveOnnxModel_fire e state w))) = intermediate_results state"
  using assms by (simp add: ReceiveOnnxModel_fire_def Let_def)

text \<open>
  C1. The stage reads the opset before it looks at the input dimensions, with
  \<^verbatim>\<open>re.search(...).group()\<close> and no test of the match. A model with a dynamic
  input dimension and an opset declaration without a number (an empty
  \<^verbatim>\<open>opset_import\<close> prints as \<^verbatim>\<open>[]\<close>) makes it raise an
  \<^verbatim>\<open>AttributeError\<close>, not the \<^verbatim>\<open>GroqitStageError\<close> of dynamic
  dimensions, which \<open>receive_dynamic_rejected\<close> shows to be the outcome whenever the
  opset is read. No file is touched in either case.
\<close>

theorem receive_dynamic_without_opset_crashes:
  "has_dynamic_dim (graph_input_dims
      (sample_model\<lparr>opset_import := [], graph_input_dims := [[0, 3, 224, 224]]\<rparr>))
   \<and> fire sample_env ReceiveOnnxModel (sample_state (PathStr ''m.onnx'') [])
        (sample_world ''m.onnx''
           (sample_model\<lparr>opset_import := [], graph_input_dims := [[0, 3, 224, 224]]\<rparr>))
     = (Raised (AttributeError ''NoneType object has no attribute group''),
        sample_state (PathStr ''m.onnx'') [],
        sample_world ''m.onnx''
           (sample_model\<lparr>opset_import := [], graph_input_dims := [[0, 3, 224, 224]]\<rparr>))"
  by (simp add: ReceiveOnnxModel_fire_def eval_defs)

subsection \<open>The artifact validator\<close>

text \<open>
  C6 as the claim states it fails: \<^verbatim>\<open>_check_model\<close> catches
  \<^verbatim>\<open>onnx.checker.ValidationError\<close> only. On an existing file for which the checker
  raises an exception of another class the function raises it, after it has printed the
  success message.
\<close>

theorem check_model_propagates_counterexample:
  "isfile (sample_world ''m.onnx'' sample_model) ''m.onnx''
   \<and> onnx_checker_check_model crashing_env (sample_world ''m.onnx'' sample_model) ''m.onnx''
       = CheckerRaised ''RuntimeError''
   \<and> check_model crashing_env (sample_world ''m.onnx'' sample_model) ''m.onnx'' ''ok'' ''ko''
       = (Inl (CheckerError ''RuntimeError''), print ''ok'' (sample_world ''m.onnx'' sample_model))"
  by (simp add: check_model_def isfile_def sample_world_def onnx_checker_check_model_def
        crashing_env_def print_def)

text \<open>
  C6, amended. For every path and every pair of messages \<^verbatim>\<open>_check_model\<close> does
  one of four things. It returns \<open>False\<close>, after printing the failure message, when the
  path is not an existing file; it returns \<open>True\<close> when the file exists and the checker
  passes; it returns \<open>False\<close>, after printing the error, when the checker raises its
  \<^verbatim>\<open>ValidationError\<close>; and it raises when the checker raises an exception of
  another class. So it raises exactly when the file holds a model on which the checker
  fails with such an exception, and returns \<open>True\<close> exactly when the file holds a model
  that the checker passes. It never changes a file.
\<close>

theorem check_model_cases:
  "(\<not> isfile w p \<longrightarrow> check_model e w p s f = (Inr False, print f w))
   \<and> (isfile w p \<and> onnx_checker_check_model e w p = Passed \<longrightarrow>
        check_model e w p s f =
          (Inr True, print (CHR 0x09 # ''Successfully checked onnx file'') (print s w)))
   \<and> (isfile w p \<and> onnx_checker_check_model e w p = ValidationError err \<longrightarrow>
        check_model e w p s f =
          (Inr False, print err (print (CHR 0x09 # ''Error while checking generated ONNX file'')
                        (print s w))))
   \<and> (isfile w p \<and> onnx_checker_check_model e w p = CheckerRaised err \<longrightarrow>
        check_model e w p s f = (Inl (CheckerError err), print s w))
   \<and> ((\<exists>x. fst (check_model e w p s f) = Inl x) =
        (\<exists>m msg. fs w p = Some (OnnxFile m) \<and> onnx_checker e m = CheckerRaised msg))
   \<and> ((fst (check_model e w p s f) = Inr True) =
        (\<exists>m. fs w p = Some (OnnxFile m) \<and> onnx_checker e m = Passed))
   \<and> fs (snd (check_model e w p s f)) = fs w"
proof -
  have a: "\<not> isfile w p \<longrightarrow> check_model e w p s f = (Inr False, print f w)"
    by (simp add: check_model_def)
  have b: "isfile w p \<and> onnx_checker_check_model e w p = Passed \<longrightarrow>
        check_model e w p s f =
          (Inr True, print (CHR 0x09 # ''Successfully checked onnx file'') (print s w))"
    by (simp add: check_model_def checker_after_print)
  have c: "isfile w p \<and> onnx_checker_check_model e w p = ValidationError err \<longrightarrow>
        check_model e w p s f =
          (Inr False, print err (print (CHR 0x09 # ''Error while checking generated ONNX file'')
                        (print s w)))"
    by (simp add: check_model_def checker_after_print)
  have d: "isfile w p \<and> onnx_checker_check_model e w p = CheckerRaised err \<longrightarrow>
        check_model e w p s f = (Inl (CheckerError err), print s w)"
    by (simp add: check_model_def checker_after_print)
  have r: "(\<exists>x. fst (check_model e w p s f) = Inl x) =
        (\<exists>m msg. fs w p = Some (OnnxFile m) \<and> onnx_checker e m = CheckerRaised msg)"
    by (simp add: check_model_result split: option.splits file_content.splits checker_result.splits)
  have t: "(fst (check_model e w p s f) = Inr True) =
        (\<exists>m. fs w p = Some (OnnxFile m) \<and> onnx_checker e m = Passed)"
    by (simp add: check_model_result split: option.splits file_content.splits checker_result.splits)
  show ?thesis using a b c d r t check_model_fs [of e w p s f] by simp
qed

theorem check_model_cases_witness:
  "\<not> isfile (sample_world ''m.onnx'' sample_model) ''n.onnx''
   \<and> fst (check_model sample_env (sample_world ''m.onnx'' sample_model) ''n.onnx'' ''ok'' ''ko'') = Inr False
   \<and> isfile (sample_world ''m.onnx'' sample_model) ''m.onnx''
   \<and> onnx_checker_check_model sample_env (sample_world ''m.onnx'' sample_model) ''m.onnx'' = Passed
   \<and> fst (check_model sample_env (sample_world ''m.onnx'' sample_model) ''m.onnx'' ''ok'' ''ko'') = Inr True
   \<and> isfile (sample_world ''m.onnx'' (sample_model\<lparr>graph_nodes := []\<rparr>)) ''m.onnx''
   \<and> onnx_checker_check_model sample_env (sample_world ''m.onnx'' (sample_model\<lparr>graph_nodes := []\<rparr>))
        ''m.onnx'' = ValidationError ''graph has no nodes''
   \<and> fst (check_model sample_env (sample_world ''m.onnx'' (sample_model\<lparr>graph_nodes := []\<rparr>))
        ''m.onnx'' ''ok'' ''ko'') = Inr False
   \<and> onnx_checker_check_model crashing_env (sample_world ''m.onnx'' sample_model) ''m.onnx''
        = CheckerRaised ''RuntimeError''
   \<and> fst (check_model crashing_env (sample_world ''m.onnx'' sample_model) ''m.onnx'' ''ok'' ''ko'')
        = Inl (CheckerError ''RuntimeError'')"
proof -
  let ?w = "sample_world ''m.onnx'' sample_model"
  let ?b = "sample_world ''m.onnx'' (sample_model\<lparr>graph_nodes := []\<rparr>)"
  have a: "\<not> isfile ?w ''n.onnx''"
    by (simp add: isfile_def sample_world_def)
  have b: "isfile ?w ''m.onnx'' \<and> onnx_checker_check_model sample_env ?w ''m.onnx'' = Passed"
    by (simp add: isfile_def sample_world_def onnx_checker_check_model_def sample_env_def
          sample_model_def)
  have c: "isfile ?b ''m.onnx''
           \<and> onnx_checker_check_model sample_env ?b ''m.onnx'' = ValidationError ''graph has no nodes''"
    by (simp add: isfile_def sample_world_def onnx_checker_check_model_def sample_env_def
          sample_model_def)
  have d: "onnx_checker_check_model crashing_env ?w ''m.onnx'' = CheckerRaised ''RuntimeError''"
    by (simp add: sample_world_def onnx_checker_check_model_def crashing_env_def)
  have 1: "fst (check_model sample_env ?w ''n.onnx'' ''ok'' ''ko'') = Inr False"
    using a check_model_cases [of ?w "''n.onnx''" sample_env "''ok''" "''ko''" "[]"] by simp
  have 2: "fst (check_model sample_env ?w ''m.onnx'' ''ok'' ''ko'') = Inr True"
    using b check_model_cases [of ?w "''m.onnx''" sample_env "''ok''" "''ko''" "[]"] by simp
  have 3: "fst (check_model sample_env ?b ''m.onnx'' ''ok'' ''ko'') = Inr False"
    using c check_model_cases [of ?b "''m.onnx''" sample_env "''ok''" "''ko''" "''graph has no nodes''"]
    by simp
  have 4: "fst (check_model crashing_env ?w ''m.onnx'' ''ok'' ''ko'') = Inl (CheckerError ''RuntimeError'')"
    using b d check_model_cases [of ?w "''m.onnx''" crashing_env "''ok''" "''ko''" "''RuntimeError''"]
    by simp
  show ?thesis using a b c d 1 2 3 4 by simp
qed

subsection \<open>The operator check\<close>

lemma compat_outcome:
  assumes "sdk_check_dependencies e True = None"
    and "intermediate_results state = p # ps"
    and "onnx_load w p = Inr m"
    and "check_ops e m (use_sdk state) = Inr (ops, unsupported)"
  shows "fst (CheckOnnxCompatibility_fire e state w) =
           (if unsupported \<noteq> [] \<or> ops = [] then Raised (GroqitStageError (unsupported_msg unsupported))
            else Returned)"
  using assms by (simp add: CheckOnnxCompatibility_fire_def first_result_def Let_def)

lemma compat_before_verdict:
  "sdk_check_dependencies e True = Some msg \<Longrightarrow>
     fst (CheckOnnxCompatibility_fire e state w) = Raised (GroqitStageError msg)"
  "sdk_check_dependencies e True = None \<Longrightarrow> intermediate_results state = p # ps \<Longrightarrow>
     onnx_load w p = Inl err \<Longrightarrow> fst (CheckOnnxCompatibility_fire e state w) = Raised err"
  "sdk_check_dependencies e True = None \<Longrightarrow> intermediate_results state = p # ps \<Longrightarrow>
     onnx_load w p = Inr m \<Longrightarrow> check_ops e m (use_sdk state) = Inl msg \<Longrightarrow>
     fst (CheckOnnxCompatibility_fire e state w) = Raised (ExternalError msg)"
  by (simp_all add: CheckOnnxCompatibility_fire_def first_result_def)

text \<open>
  C2 as the claim states it fails: the operator check would report that every operator of
  the model is supported, and \<^verbatim>\<open>CheckOnnxCompatibility.fire\<close> raises all the same,
  because the development tools are missing.
\<close>

theorem compat_raises_before_verdict_counterexample:
  "check_ops no_devtools_env sample_model False = Inr ([''Conv'', ''Relu''], [])
   \<and> fst (fire no_devtools_env CheckOnnxCompatibility (sample_state (PathStr ''m.onnx'') [''opt.onnx''])
          (sample_world ''opt.onnx'' sample_model))
       = Raised (GroqitStageError ''GroqWare Suite not found'')"
  by (simp add: CheckOnnxCompatibility_fire_def no_devtools_env_def sample_env_def sample_model_def
        catalogue_def)

text \<open>
  C2, amended. \<^verbatim>\<open>CheckOnnxCompatibility.fire\<close> first raises the error of the step
  that fails before the verdict: the stage error of the dependency check, the exception of
  the load of the first artifact of \<^verbatim>\<open>state.intermediate_results\<close>, the
  exception of the operator check. Once these steps have passed and the operator check has
  reported the operators and the unsupported ones, it raises if and only if the unsupported
  list is not empty or the list of all operators is empty. That error is the \<^verbatim>\<open>GroqitStageError\<close> whose message holds
  the unsupported operators joined by commas, so every one of them occurs in it. Whatever the
  outcome, on success in particular, \<^verbatim>\<open>state.intermediate_results\<close> is the list it
  was.
\<close>

theorem compat_raises_cases:
  assumes "fire e CheckOnnxCompatibility state w = (out, state', w')"
  shows "(sdk_check_dependencies e True = Some msg \<longrightarrow> out = Raised (GroqitStageError msg))
       \<and> (sdk_check_dependencies e True = None \<and> intermediate_results state = p # ps
            \<and> onnx_load w p = Inl err \<longrightarrow> out = Raised err)
       \<and> (sdk_check_dependencies e True = None \<and> intermediate_results state = p # ps
            \<and> onnx_load w p = Inr m \<and> check_ops e m (use_sdk state) = Inl msg \<longrightarrow>
            out = Raised (ExternalError msg))
       \<and> (sdk_check_dependencies e True = None \<and> intermediate_results state = p # ps
            \<and> onnx_load w p = Inr m \<and> check_ops e m (use_sdk state) = Inr (ops, unsupported) \<longrightarrow>
            ((\<exists>x. out = Raised x) = (unsupported \<noteq> [] \<or> ops = []))
            \<and> (unsupported \<noteq> [] \<or> ops = [] \<longrightarrow>
                 out = Raised (GroqitStageError (unsupported_msg unsupported)))
            \<and> (\<forall>op \<in> set unsupported. sublist op (unsupported_msg unsupported)))
       \<and> intermediate_results state' = intermediate_results state"
proof -
  have o: "fst (CheckOnnxCompatibility_fire e state w) = out"
    and s: "CheckOnnxCompatibility_fire e state w = (out, state', w')"
    using assms by simp_all
  have 1: "sdk_check_dependencies e True = Some msg \<longrightarrow> out = Raised (GroqitStageError msg)"
    using compat_before_verdict(1) [of e msg state w] o by simp
  have 3: "sdk_check_dependencies e True = None \<and> intermediate_results state = p # ps
            \<and> onnx_load w p = Inl err \<longrightarrow> out = Raised err"
    using compat_before_verdict(2) [of e state p ps w err] o by simp
  have 4: "sdk_check_dependencies e True = None \<and> intermediate_results state = p # ps
            \<and> onnx_load w p = Inr m \<and> check_ops e m (use_sdk state) = Inl msg \<longrightarrow>
            out = Raised (ExternalError msg)"
    using compat_before_verdict(3) [of e state p ps w m msg] o by simp
  have 5: "sdk_check_dependencies e True = None \<and> intermediate_results state = p # ps
            \<and> onnx_load w p = Inr m \<and> check_ops e m (use_sdk state) = Inr (ops, unsupported) \<longrightarrow>
            ((\<exists>x. out = Raised x) = (unsupported \<noteq> [] \<or> ops = []))
            \<and> (unsupported \<noteq> [] \<or> ops = [] \<longrightarrow>
                 out = Raised (GroqitStageError (unsupported_msg unsupported)))
            \<and> (\<forall>op \<in> set unsupported. sublist op (unsupported_msg unsupported))"
  proof (intro impI, elim conjE)
    assume h: "sdk_check_dependencies e True = None" "intermediate_results state = p # ps"
      "onnx_load w p = Inr m" "check_ops e m (use_sdk state) = Inr (ops, unsupported)"
    from compat_outcome [OF h] o
    have "out = (if unsupported \<noteq> [] \<or> ops = []
                 then Raised (GroqitStageError (unsupported_msg unsupported)) else Returned)"
      by simp
    then show "((\<exists>x. out = Raised x) = (unsupported \<noteq> [] \<or> ops = []))
            \<and> (unsupported \<noteq> [] \<or> ops = [] \<longrightarrow>
                 out = Raised (GroqitStageError (unsupported_msg unsupported)))
            \<and> (\<forall>op \<in> set unsupported. sublist op (unsupported_msg unsupported))"
      using unsupported_msg_names by (simp split: if_splits)
  qed
  have 6: "intermediate_results state' = intermediate_results state"
    using compat_state_frame [OF s] by simp
  show ?thesis using 1 3 4 5 6 by blast
qed
theorem compat_raises_cases_witness:
  "sdk_check_dependencies no_devtools_env True = Some ''GroqWare Suite not found''
   \<and> fst (fire no_devtools_env CheckOnnxCompatibility (sample_state (PathStr ''m.onnx'') [''opt.onnx''])
        (sample_world ''opt.onnx'' sample_model)) = Raised (GroqitStageError ''GroqWare Suite not found'')
   \<and> sdk_check_dependencies sample_env True = None
   \<and> intermediate_results (sample_state (PathStr ''m.onnx'') [''opt.onnx'']) = [''opt.onnx'']
   \<and> onnx_load (sample_world ''base.onnx'' sample_model) ''opt.onnx'' = Inl (FileNotFoundError ''opt.onnx'')
   \<and> fst (fire sample_env CheckOnnxCompatibility (sample_state (PathStr ''m.onnx'') [''opt.onnx''])
        (sample_world ''base.onnx'' sample_model)) = Raised (FileNotFoundError ''opt.onnx'')
   \<and> sdk_check_dependencies no_oracle_env True = None
   \<and> onnx_load (sample_world ''opt.onnx'' sample_model) ''opt.onnx'' = Inr sample_model
   \<and> check_ops no_oracle_env sample_model (use_sdk (sample_state (PathStr ''m.onnx'') [''opt.onnx'']))
        = Inl ''cannot run the operator check''
   \<and> fst (fire no_oracle_env CheckOnnxCompatibility (sample_state (PathStr ''m.onnx'') [''opt.onnx''])
        (sample_world ''opt.onnx'' sample_model)) = Raised (ExternalError ''cannot run the operator check'')
   \<and> onnx_load (sample_world ''opt.onnx'' (sample_model\<lparr>graph_nodes := [''Conv'', ''Foo'', ''Bar'']\<rparr>))
        ''opt.onnx'' = Inr (sample_model\<lparr>graph_nodes := [''Conv'', ''Foo'', ''Bar'']\<rparr>)
   \<and> check_ops sample_env (sample_model\<lparr>graph_nodes := [''Conv'', ''Foo'', ''Bar'']\<rparr>)
        (use_sdk (sample_state (PathStr ''m.onnx'') [''opt.onnx'']))
        = Inr ([''Conv'', ''Foo'', ''Bar''], [''Foo'', ''Bar''])
   \<and> fst (fire sample_env CheckOnnxCompatibility (sample_state (PathStr ''m.onnx'') [''opt.onnx''])
        (sample_world ''opt.onnx'' (sample_model\<lparr>graph_nodes := [''Conv'', ''Foo'', ''Bar'']\<rparr>)))
        = Raised (GroqitStageError (unsupported_msg [''Foo'', ''Bar'']))
   \<and> sublist ''Foo'' (unsupported_msg [''Foo'', ''Bar''])
   \<and> sublist ''Bar'' (unsupported_msg [''Foo'', ''Bar''])
   \<and> check_ops sample_env sample_model (use_sdk (sample_state (PathStr ''m.onnx'') [''opt.onnx'']))
        = Inr ([''Conv'', ''Relu''], [])
   \<and> fst (fire sample_env CheckOnnxCompatibility (sample_state (PathStr ''m.onnx'') [''opt.onnx''])
        (sample_world ''opt.onnx'' sample_model)) = Returned
   \<and> intermediate_results (fst (snd (fire sample_env CheckOnnxCompatibility
        (sample_state (PathStr ''m.onnx'') [''opt.onnx'']) (sample_world ''opt.onnx'' sample_model))))
        = [''opt.onnx'']"
proof -
  let ?s = "sample_state (PathStr ''m.onnx'') [''opt.onnx'']"
  let ?m = "sample_model\<lparr>graph_nodes := [''Conv'', ''Foo'', ''Bar'']\<rparr>"
  let ?w = "sample_world ''opt.onnx'' ?m"
  let ?v = "sample_world ''opt.onnx'' sample_model"
  let ?u = "sample_world ''base.onnx'' sample_model"
  let ?r1 = "fire no_devtools_env CheckOnnxCompatibility ?s ?v"
  let ?r3 = "fire sample_env CheckOnnxCompatibility ?s ?u"
  let ?r4 = "fire no_oracle_env CheckOnnxCompatibility ?s ?v"
  let ?r5 = "fire sample_env CheckOnnxCompatibility ?s ?w"
  let ?r6 = "fire sample_env CheckOnnxCompatibility ?s ?v"
  have d: "sdk_check_dependencies no_devtools_env True = Some ''GroqWare Suite not found''"
    "sdk_check_dependencies sample_env True = None" "sdk_check_dependencies no_oracle_env True = None"
    by (simp_all add: sample_env_def no_devtools_env_def no_oracle_env_def)
  have i: "intermediate_results ?s = [''opt.onnx'']"
    by (simp add: sample_state_def)
  have l: "onnx_load ?u ''opt.onnx'' = Inl (FileNotFoundError ''opt.onnx'')"
    "onnx_load ?v ''opt.onnx'' = Inr sample_model" "onnx_load ?w ''opt.onnx'' = Inr ?m"
    by (simp_all add: onnx_load_def sample_world_def)
  have c: "check_ops no_oracle_env sample_model (use_sdk ?s) = Inl ''cannot run the operator check''"
    "check_ops sample_env ?m (use_sdk ?s) = Inr ([''Conv'', ''Foo'', ''Bar''], [''Foo'', ''Bar''])"
    "check_ops sample_env sample_model (use_sdk ?s) = Inr ([''Conv'', ''Relu''], [])"
    by (simp_all add: sample_env_def no_oracle_env_def sample_model_def catalogue_def)
  have 1: "fst ?r1 = Raised (GroqitStageError ''GroqWare Suite not found'')"
    using compat_raises_cases [OF triple [of ?r1], of "''GroqWare Suite not found''"] d(1) by simp
  have 3: "fst ?r3 = Raised (FileNotFoundError ''opt.onnx'')"
    using compat_raises_cases [OF triple [of ?r3], of _ "''opt.onnx''" "[]" "FileNotFoundError ''opt.onnx''"]
      d(2) i l(1) by simp
  have 4: "fst ?r4 = Raised (ExternalError ''cannot run the operator check'')"
    using compat_raises_cases [OF triple [of ?r4], of "''cannot run the operator check''" "''opt.onnx''" "[]"
        _ sample_model]
      d(3) i l(2) c(1) by simp
  have 5: "fst ?r5 = Raised (GroqitStageError (unsupported_msg [''Foo'', ''Bar'']))
           \<and> sublist ''Foo'' (unsupported_msg [''Foo'', ''Bar''])
           \<and> sublist ''Bar'' (unsupported_msg [''Foo'', ''Bar''])"
    using compat_raises_cases [OF triple [of ?r5], of _ "''opt.onnx''" "[]" _ ?m
        "[''Conv'', ''Foo'', ''Bar'']" "[''Foo'', ''Bar'']"]
      d(2) i l(3) c(2) by simp
  have 6: "fst ?r6 = Returned \<and> intermediate_results (fst (snd ?r6)) = [''opt.onnx'']"
    using compat_raises_cases [OF triple [of ?r6], of _ "''opt.onnx''" "[]" _ sample_model
        "[''Conv'', ''Relu'']" "[]"]
      d(2) i l(2) c(3) by (cases "fst ?r6") simp_all
  show ?thesis using d i l c 1 3 4 5 6 by simp
qed

subsection \<open>What the exporter is given\<close>

lemma find_declared:
  "set ks \<subseteq> set all_args \<Longrightarrow> find (\<lambda>inp. inp \<notin> set all_args) ks = None"
  by (induction ks) auto

lemma map_of_key: "k \<in> set (keys d) \<Longrightarrow> \<exists>v. map_of d k = Some v"
  by (induction d) (auto simp: keys_def)

lemma export_call_made:
  assumes "positional_inputs state = Inr (args, names)"
    and "model state = NNModule all_args cls \<or> model state = ScriptModule all_args cls"
  shows "export_calls (snd (snd (ExportPytorchModel_fire e state w))) = export_calls w @
           [\<lparr>call_model = model state, call_args = args, call_path = base_onnx_file state,
             call_input_names = names, call_opset_version = DEFAULT_ONNX_OPSET e\<rparr>]"
  using assms
  by (auto simp: ExportPytorchModel_fire_def Let_def case_prod_beta check_model_calls save_inputs_def
      split: sum.splits)

lemma export_exporter_raises:
  assumes "positional_inputs state = Inr (args, names)"
    and "model state = NNModule all_args cls \<or> model state = ScriptModule all_args cls"
    and "torch_onnx_export e (model state) args names (DEFAULT_ONNX_OPSET e) = Inl msg"
  shows "fst (ExportPytorchModel_fire e state w) = Raised (ExternalError msg)
         \<and> fs (snd (snd (ExportPytorchModel_fire e state w))) = fs w"
  using assms by (auto simp: ExportPytorchModel_fire_def Let_def)

lemma export_exporter_returns:
  assumes "positional_inputs state = Inr (args, names)"
    and "model state = NNModule all_args cls \<or> model state = ScriptModule all_args cls"
    and "torch_onnx_export e (model state) args names (DEFAULT_ONNX_OPSET e) = Inr m"
  shows "fs (snd (snd (ExportPytorchModel_fire e state w))) (base_onnx_file state) =
           Some (if original_inputs_file state = base_onnx_file state
                 then InputsFile [dict (zip names args)] else OnnxFile m)
         \<and> inputs (fst (snd (ExportPytorchModel_fire e state w))) = dict (zip names args)"
  using assms
  by (auto simp: ExportPytorchModel_fire_def Let_def case_prod_beta check_model_fs save_inputs_def
      split: sum.splits)

lemma export_no_value_error:
  assumes "positional_inputs state = Inr (args, names)"
  shows "fst (ExportPytorchModel_fire e state w) \<noteq> Raised (ValueError msg)"
  using assms
  by (auto simp: ExportPytorchModel_fire_def Let_def case_prod_beta check_model_result
        split: sum.splits option.splits file_content.splits checker_result.splits)

text \<open>
  C8 as the claim states it fails: for a module and an input whose name is not a parameter
  of \<^verbatim>\<open>forward\<close> the stage raises before the export, which is given nothing, and
  no file is written.
\<close>

theorem export_not_reached_counterexample:
  "keys (inputs (sample_state (NNModule [''input_ids'', ''mask''] ''Net'') [])) = [''x'']
   \<and> fst (fire sample_env ExportPytorchModel (sample_state (NNModule [''input_ids'', ''mask''] ''Net'') [])
          (sample_world ''m.onnx'' sample_model))
       = Raised (ValueError (mismatch_msg ''x'' [''input_ids'', ''mask'']))
   \<and> export_calls (snd (snd (fire sample_env ExportPytorchModel
          (sample_state (NNModule [''input_ids'', ''mask''] ''Net'') [])
          (sample_world ''m.onnx'' sample_model)))) = []
   \<and> fs (snd (snd (fire sample_env ExportPytorchModel
          (sample_state (NNModule [''input_ids'', ''mask''] ''Net'') [])
          (sample_world ''m.onnx'' sample_model)))) ''base.onnx'' = None"
  by (simp add: ExportPytorchModel_fire_def positional_inputs_def sample_state_def sample_world_def
        keys_def)

text \<open>
  C8, amended. For a \<^verbatim>\<open>torch.nn.Module\<close> that is not a script module and inputs
  whose names are all parameters of \<^verbatim>\<open>forward\<close>,
  \<^verbatim>\<open>ExportPytorchModel.fire\<close> calls the exporter once, with the parameter names
  of the signature as input names and one positional value for each of them, in that order:
  the value of \<^verbatim>\<open>state.inputs\<close> under the name when the name is a key of it,
  \<open>None\<close> otherwise. Every input of the user is at the position of its parameter.
  What the exporter answers to exactly these arguments decides the call: its exception is
  the error of the stage, and the model it returns is the file at
  \<^verbatim>\<open>base_onnx_file\<close> (unless the saved inputs are written to the same path).
\<close>

theorem export_positional_arguments:
  assumes "model state = NNModule all_args cls"
    and "set (keys (inputs state)) \<subseteq> set all_args"
    and "fire e ExportPytorchModel state w = (out, state', w')"
  shows "\<exists>c. export_calls w' = export_calls w @ [c]
            \<and> call_model c = model state
            \<and> call_input_names c = all_args
            \<and> length (call_args c) = length all_args
            \<and> (\<forall>i < length all_args.
                  (all_args ! i \<in> set (keys (inputs state)) \<longrightarrow>
                     map_of (inputs state) (all_args ! i) = Some (call_args c ! i))
                  \<and> (all_args ! i \<notin> set (keys (inputs state)) \<longrightarrow> call_args c ! i = None))
            \<and> (distinct (keys (inputs state)) \<longrightarrow>
                  (\<forall>kv \<in> set (inputs state). \<exists>i < length all_args.
                      all_args ! i = fst kv \<and> call_args c ! i = snd kv))
            \<and> (\<forall>msg. torch_onnx_export e (model state) (call_args c) all_args (DEFAULT_ONNX_OPSET e)
                        = Inl msg \<longrightarrow>
                      out = Raised (ExternalError msg) \<and> fs w' = fs w)
            \<and> (\<forall>m. torch_onnx_export e (model state) (call_args c) all_args (DEFAULT_ONNX_OPSET e)
                        = Inr m \<longrightarrow>
                      fs w' (base_onnx_file state) =
                        Some (if original_inputs_file state = base_onnx_file state
                              then InputsFile [inputs state'] else OnnxFile m))"
proof -
  let ?f = "\<lambda>arg. if arg \<in> set (keys (inputs state))
                   then (case map_of (inputs state) arg of Some v \<Rightarrow> v | None \<Rightarrow> None) else None"
  let ?args = "map ?f all_args"
  let ?c = "\<lparr>call_model = model state, call_args = ?args, call_path = base_onnx_file state,
             call_input_names = all_args, call_opset_version = DEFAULT_ONNX_OPSET e\<rparr>"
  have p: "positional_inputs state = Inr (?args, all_args)"
    using assms(1) find_declared [OF assms(2)] by (simp add: positional_inputs_def)
  have md: "model state = NNModule all_args cls \<or> model state = ScriptModule all_args cls"
    using assms(1) by simp
  have w': "w' = snd (snd (ExportPytorchModel_fire e state w))"
    and s': "state' = fst (snd (ExportPytorchModel_fire e state w))"
    and out: "out = fst (ExportPytorchModel_fire e state w)"
    using assms(3) by simp_all
  have c: "export_calls w' = export_calls w @ [?c]"
    unfolding w' using export_call_made [OF p md] by simp
  have a: "map_of (inputs state) (all_args ! i) = Some (?args ! i)"
    if "i < length all_args" "all_args ! i \<in> set (keys (inputs state))" for i
    using that map_of_key [OF that(2)] by auto
  have b: "?args ! i = None"
    if "i < length all_args" "all_args ! i \<notin> set (keys (inputs state))" for i
    using that by simp
  have d: "\<exists>i < length all_args. all_args ! i = fst kv \<and> ?args ! i = snd kv"
    if "distinct (keys (inputs state))" "kv \<in> set (inputs state)" for kv
  proof -
    have k: "fst kv \<in> set (keys (inputs state))" using that(2) by (simp add: keys_def)
    then have "fst kv \<in> set all_args" using assms(2) by blast
    then obtain i where i: "i < length all_args" "all_args ! i = fst kv"
      by (auto simp: in_set_conv_nth)
    have "map_of (inputs state) (fst kv) = Some (snd kv)"
      using that by (simp add: keys_def)
    then have "?args ! i = snd kv" using i k by simp
    then show ?thesis using i by blast
  qed
  have ab: "\<forall>i < length all_args.
              (all_args ! i \<in> set (keys (inputs state)) \<longrightarrow>
                 map_of (inputs state) (all_args ! i) = Some (call_args ?c ! i))
              \<and> (all_args ! i \<notin> set (keys (inputs state)) \<longrightarrow> call_args ?c ! i = None)"
  proof (intro allI impI conjI)
    fix i assume "i < length all_args" "all_args ! i \<in> set (keys (inputs state))"
    from a [OF this] show "map_of (inputs state) (all_args ! i) = Some (call_args ?c ! i)"
      by simp
  next
    fix i assume "i < length all_args" "all_args ! i \<notin> set (keys (inputs state))"
    from b [OF this] show "call_args ?c ! i = None" by simp
  qed
  have dd: "distinct (keys (inputs state)) \<longrightarrow>
              (\<forall>kv \<in> set (inputs state). \<exists>i < length all_args.
                  all_args ! i = fst kv \<and> call_args ?c ! i = snd kv)"
  proof (intro impI ballI)
    fix kv assume "distinct (keys (inputs state))" "kv \<in> set (inputs state)"
    from d [OF this] show "\<exists>i < length all_args. all_args ! i = fst kv \<and> call_args ?c ! i = snd kv"
      by simp
  qed
  have m: "call_model ?c = model state" "call_input_names ?c = all_args"
    "length (call_args ?c) = length all_args"
    by simp_all
  have xr: "\<forall>msg. torch_onnx_export e (model state) (call_args ?c) all_args (DEFAULT_ONNX_OPSET e)
                   = Inl msg \<longrightarrow> out = Raised (ExternalError msg) \<and> fs w' = fs w"
  proof (intro allI impI)
    fix msg
    assume "torch_onnx_export e (model state) (call_args ?c) all_args (DEFAULT_ONNX_OPSET e) = Inl msg"
    then have "torch_onnx_export e (model state) ?args all_args (DEFAULT_ONNX_OPSET e) = Inl msg"
      by simp
    from export_exporter_raises [OF p md this, of w]
    show "out = Raised (ExternalError msg) \<and> fs w' = fs w" unfolding out w' by simp
  qed
  have xo: "\<forall>m. torch_onnx_export e (model state) (call_args ?c) all_args (DEFAULT_ONNX_OPSET e)
                   = Inr m \<longrightarrow>
                 fs w' (base_onnx_file state) =
                   Some (if original_inputs_file state = base_onnx_file state
                         then InputsFile [inputs state'] else OnnxFile m)"
  proof (intro allI impI)
    fix m
    assume "torch_onnx_export e (model state) (call_args ?c) all_args (DEFAULT_ONNX_OPSET e) = Inr m"
    then have "torch_onnx_export e (model state) ?args all_args (DEFAULT_ONNX_OPSET e) = Inr m"
      by simp
    from export_exporter_returns [OF p md this, of w]
    show "fs w' (base_onnx_file state) =
            Some (if original_inputs_file state = base_onnx_file state
                  then InputsFile [inputs state'] else OnnxFile m)"
      unfolding w' s' by simp
  qed
  show ?thesis
    by (rule exI [of _ ?c]) (intro conjI c m ab dd xr xo)
qed

theorem export_positional_arguments_witness:
  "model (sample_state (NNModule [''mask'', ''x''] ''Net'') []) = NNModule [''mask'', ''x''] ''Net''
   \<and> set (keys (inputs (sample_state (NNModule [''mask'', ''x''] ''Net'') []))) \<subseteq> set [''mask'', ''x'']
   \<and> map call_input_names (export_calls (snd (snd (fire sample_env ExportPytorchModel
         (sample_state (NNModule [''mask'', ''x''] ''Net'') []) (sample_world ''m.onnx'' sample_model)))))
       = [[''mask'', ''x'']]
   \<and> map call_args (export_calls (snd (snd (fire sample_env ExportPytorchModel
         (sample_state (NNModule [''mask'', ''x''] ''Net'') []) (sample_world ''m.onnx'' sample_model)))))
       = [[None, Some (Tensor [1, 3, 224, 224] [])]]
   \<and> fs (snd (snd (fire sample_env ExportPytorchModel
         (sample_state (NNModule [''mask'', ''x''] ''Net'') []) (sample_world ''m.onnx'' sample_model))))
        ''base.onnx''
       = Some (OnnxFile \<lparr>opset_import = [\<lparr>domain = None, version = Some 14\<rparr>],
                         graph_input_names = [''mask'', ''x''],
                         graph_input_dims = [[], [1, 3, 224, 224]],
                         graph_nodes = [''Conv'', ''Relu'']\<rparr>)"
proof -
  let ?s = "sample_state (NNModule [''mask'', ''x''] ''Net'') []"
  let ?w = "sample_world ''m.onnx'' sample_model"
  let ?r = "fire sample_env ExportPytorchModel ?s ?w"
  have m: "model ?s = NNModule [''mask'', ''x''] ''Net''"
    by (simp add: sample_state_def)
  have i: "inputs ?s = [(''x'', Some (Tensor [1, 3, 224, 224] []))]"
    by (simp add: sample_state_def)
  have k: "set (keys (inputs ?s)) \<subseteq> set [''mask'', ''x'']"
    by (simp add: i keys_def)
  have w: "export_calls ?w = []"
    by (simp add: sample_world_def)
  have p: "original_inputs_file ?s \<noteq> base_onnx_file ?s" "base_onnx_file ?s = ''base.onnx''"
    by (simp_all add: sample_state_def)
  from export_positional_arguments [OF m k triple [of ?r]] obtain c where
    c: "export_calls (snd (snd ?r)) = export_calls ?w @ [c]"
    and n: "call_input_names c = [''mask'', ''x'']"
    and l: "length (call_args c) = length [''mask'', ''x'']"
    and a: "\<forall>i < length [''mask'', ''x''].
              ([''mask'', ''x''] ! i \<in> set (keys (inputs ?s)) \<longrightarrow>
                 map_of (inputs ?s) ([''mask'', ''x''] ! i) = Some (call_args c ! i))
              \<and> ([''mask'', ''x''] ! i \<notin> set (keys (inputs ?s)) \<longrightarrow> call_args c ! i = None)"
    and x: "\<forall>m. torch_onnx_export sample_env (model ?s) (call_args c) [''mask'', ''x'']
                    (DEFAULT_ONNX_OPSET sample_env) = Inr m \<longrightarrow>
               fs (snd (snd ?r)) (base_onnx_file ?s) =
                 Some (if original_inputs_file ?s = base_onnx_file ?s
                       then InputsFile [inputs (fst (snd ?r))] else OnnxFile m)"
    by blast
  have a0: "call_args c ! 0 = None"
    using a [rule_format, of 0] by (simp add: i keys_def)
  have a1: "call_args c ! 1 = Some (Tensor [1, 3, 224, 224] [])"
    using a [rule_format, of 1] by (simp add: i keys_def)
  have ca: "call_args c = [None, Some (Tensor [1, 3, 224, 224] [])]"
    using l a0 a1 by (cases "call_args c"; cases "tl (call_args c)") auto
  have f: "fs (snd (snd ?r)) ''base.onnx''
       = Some (OnnxFile \<lparr>opset_import = [\<lparr>domain = None, version = Some 14\<rparr>],
                         graph_input_names = [''mask'', ''x''],
                         graph_input_dims = [[], [1, 3, 224, 224]],
                         graph_nodes = [''Conv'', ''Relu'']\<rparr>)"
    using x p by (simp add: ca sample_env_def traced_model_def)
  show ?thesis using m k c n w ca f by simp
qed

text \<open>
  C10. For a \<^verbatim>\<open>torch.jit.ScriptModule\<close> \<^verbatim>\<open>ExportPytorchModel.fire\<close>
  does not compare the input names with the parameters of the model: whatever the inputs
  are, the exporter is called with the values of the mapping in its iteration order and
  with its keys as input names. What the exporter answers to exactly these arguments decides
  the call: its exception is the error of the stage, the model it returns is the file at
  \<^verbatim>\<open>base_onnx_file\<close> (unless the saved inputs are written to the same path). The
  error of a name that is not a parameter is never the outcome: that error is raised only
  for a module that is not a script module.
\<close>

theorem script_module_inputs_not_validated:
  assumes "fire e ExportPytorchModel state w = (out, state', w')"
  shows "(\<forall>ps cls. model state = ScriptModule ps cls \<longrightarrow>
            export_calls w' = export_calls w @
              [\<lparr>call_model = model state, call_args = map snd (inputs state),
                call_path = base_onnx_file state, call_input_names = map fst (inputs state),
                call_opset_version = DEFAULT_ONNX_OPSET e\<rparr>]
            \<and> (\<forall>msg. torch_onnx_export e (model state) (map snd (inputs state))
                        (map fst (inputs state)) (DEFAULT_ONNX_OPSET e) = Inl msg \<longrightarrow>
                      out = Raised (ExternalError msg) \<and> fs w' = fs w)
            \<and> (\<forall>m. torch_onnx_export e (model state) (map snd (inputs state))
                        (map fst (inputs state)) (DEFAULT_ONNX_OPSET e) = Inr m \<longrightarrow>
                      fs w' (base_onnx_file state) =
                        Some (if original_inputs_file state = base_onnx_file state
                              then InputsFile [inputs state'] else OnnxFile m))
            \<and> (\<forall>msg. out \<noteq> Raised (ValueError msg)))
       \<and> (\<forall>msg. out = Raised (ValueError msg) \<longrightarrow> (\<exists>all_args cls. model state = NNModule all_args cls))"
proof -
  have w': "w' = snd (snd (ExportPytorchModel_fire e state w))"
    and s': "state' = fst (snd (ExportPytorchModel_fire e state w))"
    and out: "out = fst (ExportPytorchModel_fire e state w)"
    using assms by simp_all
  have v: "\<exists>all_args cls. model state = NNModule all_args cls" if "out = Raised (ValueError msg)" for msg
  proof (cases "model state")
    case (NNModule all_args cls)
    then show ?thesis by simp
  next
    case (ScriptModule ps cls)
    then have "positional_inputs state = Inr (values_of (inputs state), keys (inputs state))"
      by (simp add: positional_inputs_def)
    from export_no_value_error [OF this, of e w msg] that show ?thesis unfolding out by simp
  next
    case (PathStr p)
    then have "positional_inputs state = Inr ([], [])"
      by (simp add: positional_inputs_def)
    from export_no_value_error [OF this, of e w msg] that show ?thesis unfolding out by simp
  next
    case (OtherModel t)
    then have "positional_inputs state = Inr ([], [])"
      by (simp add: positional_inputs_def)
    from export_no_value_error [OF this, of e w msg] that show ?thesis unfolding out by simp
  qed
  have s: "export_calls w' = export_calls w @
              [\<lparr>call_model = model state, call_args = map snd (inputs state),
                call_path = base_onnx_file state, call_input_names = map fst (inputs state),
                call_opset_version = DEFAULT_ONNX_OPSET e\<rparr>]
            \<and> (\<forall>msg. torch_onnx_export e (model state) (map snd (inputs state))
                        (map fst (inputs state)) (DEFAULT_ONNX_OPSET e) = Inl msg \<longrightarrow>
                      out = Raised (ExternalError msg) \<and> fs w' = fs w)
            \<and> (\<forall>m. torch_onnx_export e (model state) (map snd (inputs state))
                        (map fst (inputs state)) (DEFAULT_ONNX_OPSET e) = Inr m \<longrightarrow>
                      fs w' (base_onnx_file state) =
                        Some (if original_inputs_file state = base_onnx_file state
                              then InputsFile [inputs state'] else OnnxFile m))
            \<and> (\<forall>msg. out \<noteq> Raised (ValueError msg))"
    if sm: "model state = ScriptModule ps cls" for ps cls
  proof (intro conjI allI impI)
    have p: "positional_inputs state = Inr (map snd (inputs state), map fst (inputs state))"
      using sm by (simp add: positional_inputs_def keys_def values_of_def)
    have md: "model state = NNModule ps cls \<or> model state = ScriptModule ps cls"
      using sm by simp
    show "export_calls w' = export_calls w @
              [\<lparr>call_model = model state, call_args = map snd (inputs state),
                call_path = base_onnx_file state, call_input_names = map fst (inputs state),
                call_opset_version = DEFAULT_ONNX_OPSET e\<rparr>]"
      using export_call_made [OF p md, of e w] unfolding w' by simp
    {
      fix msg
      assume "torch_onnx_export e (model state) (map snd (inputs state))
                (map fst (inputs state)) (DEFAULT_ONNX_OPSET e) = Inl msg"
      from export_exporter_raises [OF p md this, of w]
      show "out = Raised (ExternalError msg)" "fs w' = fs w" unfolding out w' by simp_all
    }
    {
      fix m
      assume "torch_onnx_export e (model state) (map snd (inputs state))
                (map fst (inputs state)) (DEFAULT_ONNX_OPSET e) = Inr m"
      from export_exporter_returns [OF p md this, of w]
      show "fs w' (base_onnx_file state) =
              Some (if original_inputs_file state = base_onnx_file state
                    then InputsFile [inputs state'] else OnnxFile m)"
        unfolding w' s' by simp
    }
    {
      fix msg
      show "out \<noteq> Raised (ValueError msg)" using v [of msg] sm by auto
    }
  qed
  show ?thesis using s v by blast
qed

theorem script_module_inputs_not_validated_witness:
  "export_calls (snd (snd (fire sample_env ExportPytorchModel
       (sample_state (ScriptModule [''input_ids'', ''mask''] ''Scripted'') [])
       (sample_world ''m.onnx'' sample_model))))
     = [\<lparr>call_model = ScriptModule [''input_ids'', ''mask''] ''Scripted'',
         call_args = [Some (Tensor [1, 3, 224, 224] [])], call_path = ''base.onnx'',
         call_input_names = [''x''], call_opset_version = 14\<rparr>]
   \<and> fs (snd (snd (fire sample_env ExportPytorchModel
       (sample_state (ScriptModule [''input_ids'', ''mask''] ''Scripted'') [])
       (sample_world ''m.onnx'' sample_model)))) ''base.onnx''
     = Some (OnnxFile \<lparr>opset_import = [\<lparr>domain = None, version = Some 14\<rparr>],
                       graph_input_names = [''x''],
                       graph_input_dims = [[1, 3, 224, 224]],
                       graph_nodes = [''Conv'', ''Relu'']\<rparr>)
   \<and> fst (fire sample_env ExportPytorchModel
       (sample_state (ScriptModule [''input_ids'', ''mask''] ''Scripted'') [])
       (sample_world ''m.onnx'' sample_model)) = Returned
   \<and> fst (fire sample_env ExportPytorchModel (sample_state (NNModule [''input_ids'', ''mask''] ''Net'') [])
       (sample_world ''m.onnx'' sample_model))
     = Raised (ValueError (mismatch_msg ''x'' [''input_ids'', ''mask'']))
   \<and> (\<exists>all_args cls. model (sample_state (NNModule [''input_ids'', ''mask''] ''Net'') [])
         = NNModule all_args cls)"
proof -
  let ?s = "sample_state (ScriptModule [''input_ids'', ''mask''] ''Scripted'') []"
  let ?t = "sample_state (NNModule [''input_ids'', ''mask''] ''Net'') []"
  let ?w = "sample_world ''m.onnx'' sample_model"
  let ?r = "fire sample_env ExportPytorchModel ?s ?w"
  let ?q = "fire sample_env ExportPytorchModel ?t ?w"
  have r: "fst ?r = Returned"
    by (simp add: ExportPytorchModel_fire_def positional_inputs_def eval_defs traced_model_def
          check_model_result)
  have q: "fst ?q = Raised (ValueError (mismatch_msg ''x'' [''input_ids'', ''mask'']))"
    by (simp add: ExportPytorchModel_fire_def positional_inputs_def eval_defs)
  have c: "export_calls (snd (snd ?r))
     = [\<lparr>call_model = ScriptModule [''input_ids'', ''mask''] ''Scripted'',
         call_args = [Some (Tensor [1, 3, 224, 224] [])], call_path = ''base.onnx'',
         call_input_names = [''x''], call_opset_version = 14\<rparr>]
     \<and> fs (snd (snd ?r)) ''base.onnx''
     = Some (OnnxFile \<lparr>opset_import = [\<lparr>domain = None, version = Some 14\<rparr>],
                       graph_input_names = [''x''],
                       graph_input_dims = [[1, 3, 224, 224]],
                       graph_nodes = [''Conv'', ''Relu'']\<rparr>)"
    using script_module_inputs_not_validated [OF triple [of ?r]]
    by (simp add: sample_state_def sample_world_def sample_env_def traced_model_def)
  have n: "\<exists>all_args cls. model ?t = NNModule all_args cls"
    using script_module_inputs_not_validated [OF triple [of ?q]] q by simp
  show ?thesis using r q c n by simp
qed

subsection \<open>The opset of a received model\<close>

lemma check_model_stdout_prefix:
  "isfile w p \<Longrightarrow> \<exists>rest. stdout (snd (check_model e w p s f)) = stdout w @ s # rest"
  by (simp add: check_model_def Let_def split: checker_result.splits)

lemma receive_below_minimum:
  assumes "model state = PathStr src" and "endswith src ''.onnx''" and "onnx_load w src = Inr m"
    and "re_search_digits (str_opset_import (opset_import m)) = Some ds"
    and "\<not> has_dynamic_dim (graph_input_dims m)"
    and "int_of_digits ds < MINIMUM_ONNX_OPSET e"
  shows "fst (ReceiveOnnxModel_fire e state w) = Raised (GroqitStageError (opset_msg e (int_of_digits ds)))
         \<and> snd (snd (ReceiveOnnxModel_fire e state w)) = w"
  using assms by (simp add: ReceiveOnnxModel_fire_def Let_def)

lemma receive_supported:
  assumes "model state = PathStr src" and "endswith src ''.onnx''" and "onnx_load w src = Inr m"
    and "re_search_digits (str_opset_import (opset_import m)) = Some ds"
    and "\<not> has_dynamic_dim (graph_input_dims m)"
    and "MINIMUM_ONNX_OPSET e \<le> int_of_digits ds"
  shows "fst (ReceiveOnnxModel_fire e state w) =
           (if original_inputs_file state = base_onnx_file state
            then Raised (GroqitStageError (receive_failed_msg e))
            else case onnx_checker e m of
                   Passed \<Rightarrow> Returned
                 | ValidationError msg \<Rightarrow> Raised (GroqitStageError (receive_failed_msg e))
                 | CheckerRaised msg \<Rightarrow> Raised (CheckerError msg))"
    and "\<exists>rest. stdout (snd (snd (ReceiveOnnxModel_fire e state w))) =
            stdout w @ (if int_of_digits ds < DEFAULT_ONNX_OPSET e then [advisory] else [])
              @ (CHR 0x09 # ''Success receiving ONNX Model'') # rest"
    and "fst (ReceiveOnnxModel_fire e state w) = Returned \<longrightarrow>
           stdout (snd (snd (ReceiveOnnxModel_fire e state w))) =
             stdout w @ (if int_of_digits ds < DEFAULT_ONNX_OPSET e then [advisory] else [])
               @ [CHR 0x09 # ''Success receiving ONNX Model'',
                  CHR 0x09 # ''Successfully checked onnx file'']"
proof -
  have f: "fs w src = Some (OnnxFile m)"
    using assms(3) by (simp add: onnx_load_def split: option.splits file_content.splits)
  define adv where "adv = (if int_of_digits ds < DEFAULT_ONNX_OPSET e then [advisory] else [])"
  define state1 where
    "state1 = state\<lparr>inputs := dict (zip (keys (inputs state)) (values_of (inputs state)))\<rparr>"
  define w1 where "w1 = (if int_of_digits ds < DEFAULT_ONNX_OPSET e then print advisory w else w)"
  define w3 where
    "w3 = save_inputs [inputs state1] (original_inputs_file state)
            (w1\<lparr>fs := ((fs w1)(src := None))(base_onnx_file state \<mapsto> OnnxFile m)\<rparr>)"
  define cm where
    "cm = check_model e w3 (base_onnx_file state)
            (CHR 0x09 # ''Success receiving ONNX Model'') (CHR 0x09 # ''Failed receiving ONNX Model'')"
  have r: "ReceiveOnnxModel_fire e state w =
             (case fst cm of
                Inl err \<Rightarrow> (Raised err, state1, snd cm)
              | Inr ok \<Rightarrow>
                  if ok then (Returned,
                              state1\<lparr>info := (info state)\<lparr>base_onnx_exported := Some ok\<rparr>,
                                      intermediate_results := [base_onnx_file state]\<rparr>, snd cm)
                  else (Raised (GroqitStageError (receive_failed_msg e)),
                        state1\<lparr>info := (info state)\<lparr>base_onnx_exported := Some ok\<rparr>\<rparr>, snd cm))"
    using assms f unfolding cm_def w3_def w1_def state1_def
    by (simp add: ReceiveOnnxModel_fire_def Let_def case_prod_beta shutil_move_def print_def
          split: sum.splits)
  have i: "isfile w3 (base_onnx_file state)"
    by (simp add: isfile_def save_inputs_def w3_def)
  have so: "stdout w3 = stdout w @ adv"
    by (simp add: save_inputs_def w3_def w1_def adv_def)
  have fw: "fs w3 (base_onnx_file state) =
              Some (if original_inputs_file state = base_onnx_file state
                    then InputsFile [inputs state1] else OnnxFile m)"
    by (simp add: save_inputs_def w3_def)
  have res: "fst cm =
           (if original_inputs_file state = base_onnx_file state then Inr False
            else case onnx_checker e m of
                   Passed \<Rightarrow> Inr True
                 | ValidationError msg \<Rightarrow> Inr False
                 | CheckerRaised msg \<Rightarrow> Inl (CheckerError msg))"
    unfolding cm_def by (simp add: check_model_result fw)
  show "fst (ReceiveOnnxModel_fire e state w) =
           (if original_inputs_file state = base_onnx_file state
            then Raised (GroqitStageError (receive_failed_msg e))
            else case onnx_checker e m of
                   Passed \<Rightarrow> Returned
                 | ValidationError msg \<Rightarrow> Raised (GroqitStageError (receive_failed_msg e))
                 | CheckerRaised msg \<Rightarrow> Raised (CheckerError msg))"
    unfolding r res by (simp split: checker_result.splits)
  from check_model_stdout_prefix [OF i] obtain rest where
    p: "stdout (snd cm) = stdout w3 @ (CHR 0x09 # ''Success receiving ONNX Model'') # rest"
    unfolding cm_def by blast
  have sn: "snd (snd (ReceiveOnnxModel_fire e state w)) = snd cm"
    unfolding r by (simp split: sum.splits)
  have "stdout (snd (snd (ReceiveOnnxModel_fire e state w))) =
            stdout w @ adv @ (CHR 0x09 # ''Success receiving ONNX Model'') # rest"
    unfolding sn p so by simp
  then show "\<exists>rest. stdout (snd (snd (ReceiveOnnxModel_fire e state w))) =
            stdout w @ (if int_of_digits ds < DEFAULT_ONNX_OPSET e then [advisory] else [])
              @ (CHR 0x09 # ''Success receiving ONNX Model'') # rest"
    unfolding adv_def by blast
  show "fst (ReceiveOnnxModel_fire e state w) = Returned \<longrightarrow>
           stdout (snd (snd (ReceiveOnnxModel_fire e state w))) =
             stdout w @ (if int_of_digits ds < DEFAULT_ONNX_OPSET e then [advisory] else [])
               @ [CHR 0x09 # ''Success receiving ONNX Model'',
                  CHR 0x09 # ''Successfully checked onnx file'']"
  proof
    assume "fst (ReceiveOnnxModel_fire e state w) = Returned"
    then have ok: "fst cm = Inr True"
      unfolding r by (simp split: sum.splits if_splits)
    then have "stdout (snd cm) = stdout w3 @ [CHR 0x09 # ''Success receiving ONNX Model'',
                  CHR 0x09 # ''Successfully checked onnx file'']"
      unfolding cm_def by (rule check_model_stdout)
    then show "stdout (snd (snd (ReceiveOnnxModel_fire e state w))) =
             stdout w @ (if int_of_digits ds < DEFAULT_ONNX_OPSET e then [advisory] else [])
               @ [CHR 0x09 # ''Success receiving ONNX Model'',
                  CHR 0x09 # ''Successfully checked onnx file'']"
      unfolding sn so adv_def by simp
  qed
qed

text \<open>
  C3 as the claim states it fails, twice. A model with static shapes and opset 13, between the
  minimum 11 and the recommended 14, that the checker rejects once it has been moved: the
  stage prints the advisory and then raises. And a model with static shapes that imports
  version 2 of \<^verbatim>\<open>ai.onnx.ml\<close> before version 13 of the default operator set: the
  stage reads 2, the first number that \<^verbatim>\<open>str(model.opset_import)\<close> prints, and
  raises the error of an opset below the minimum.
\<close>

theorem receive_supported_opset_raises_counterexample:
  "\<not> has_dynamic_dim (graph_input_dims (sample_model\<lparr>graph_nodes := []\<rparr>))
   \<and> opset_import (sample_model\<lparr>graph_nodes := []\<rparr>) = [\<lparr>domain = None, version = Some 13\<rparr>]
   \<and> MINIMUM_ONNX_OPSET sample_env = 11
   \<and> DEFAULT_ONNX_OPSET sample_env = 14
   \<and> fst (fire sample_env ReceiveOnnxModel (sample_state (PathStr ''m.onnx'') [])
          (sample_world ''m.onnx'' (sample_model\<lparr>graph_nodes := []\<rparr>)))
       = Raised (GroqitStageError (receive_failed_msg sample_env))
   \<and> \<not> has_dynamic_dim (graph_input_dims (sample_model
        \<lparr>opset_import := [\<lparr>domain = Some ''ai.onnx.ml'', version = Some 2\<rparr>,
                          \<lparr>domain = None, version = Some 13\<rparr>]\<rparr>))
   \<and> fst (fire sample_env ReceiveOnnxModel (sample_state (PathStr ''m.onnx'') [])
          (sample_world ''m.onnx'' (sample_model
             \<lparr>opset_import := [\<lparr>domain = Some ''ai.onnx.ml'', version = Some 2\<rparr>,
                               \<lparr>domain = None, version = Some 13\<rparr>]\<rparr>)))
       = Raised (GroqitStageError (opset_msg sample_env 2))"
  by (simp add: ReceiveOnnxModel_fire_def eval_defs check_model_result is_digit_def)

text \<open>
  C3, amended. For a model with static shapes whose first opset import is that of the default
  operator set (no domain, the empty domain or \<^verbatim>\<open>ai.onnx\<close>), with version \<open>v\<close>:
  if \<open>v\<close> is below the minimum opset, \<^verbatim>\<open>ReceiveOnnxModel.fire\<close> raises the
  \<^verbatim>\<open>GroqitStageError\<close> of the unsupported opset and has touched neither a file nor
  the output. If \<open>v\<close> is at or above the minimum the opset raises nothing: the stage
  prints the advisory as its first line when \<open>v\<close> is below the recommended opset and does
  not when \<open>v\<close> is at or above it, moves the model and validates the moved file. It
  returns exactly when the checker passes the model (and the saved inputs are not written
  over it), raises the \<^verbatim>\<open>GroqitStageError\<close> of a model that could not be processed
  when the checker rejects it, and the exception of the checker when it raises another one.
\<close>

theorem receive_opset_cases:
  assumes "model state = PathStr src" and "endswith src ''.onnx''" and "onnx_load w src = Inr m"
    and "opset_import m = i # imports"
    and "domain i = None \<or> domain i = Some [] \<or> domain i = Some ''ai.onnx''"
    and "version i = Some v" and "0 \<le> v"
    and "\<not> has_dynamic_dim (graph_input_dims m)"
    and "fire e ReceiveOnnxModel state w = (out, state', w')"
  shows "(v < MINIMUM_ONNX_OPSET e \<longrightarrow>
            out = Raised (GroqitStageError (opset_msg e v)) \<and> w' = w)
       \<and> (MINIMUM_ONNX_OPSET e \<le> v \<longrightarrow>
            out = (if original_inputs_file state = base_onnx_file state
                   then Raised (GroqitStageError (receive_failed_msg e))
                   else case onnx_checker e m of
                          Passed \<Rightarrow> Returned
                        | ValidationError msg \<Rightarrow> Raised (GroqitStageError (receive_failed_msg e))
                        | CheckerRaised msg \<Rightarrow> Raised (CheckerError msg)))
       \<and> (MINIMUM_ONNX_OPSET e \<le> v \<longrightarrow>
            (\<exists>rest. stdout w' =
               stdout w @ (if v < DEFAULT_ONNX_OPSET e then [advisory] else [])
                 @ (CHR 0x09 # ''Success receiving ONNX Model'') # rest))
       \<and> (MINIMUM_ONNX_OPSET e \<le> v \<and> out = Returned \<longrightarrow>
            stdout w' =
              stdout w @ (if v < DEFAULT_ONNX_OPSET e then [advisory] else [])
                @ [CHR 0x09 # ''Success receiving ONNX Model'',
                   CHR 0x09 # ''Successfully checked onnx file''])"
proof -
  have r: "fst (ReceiveOnnxModel_fire e state w) = out"
    "snd (snd (ReceiveOnnxModel_fire e state w)) = w'"
    using assms(9) by simp_all
  have nd: "\<And>x. x \<in> set (case domain i of None \<Rightarrow> [] | Some d \<Rightarrow> d) \<Longrightarrow> \<not> is_digit x"
    using assms(5) by (auto simp: is_digit_def)
  have p: "re_search_digits (str_opset_import (opset_import m)) = Some (str_nat (nat v))"
    unfolding assms(4) by (rule re_search_first_import [OF assms(6,7) nd])
  have iv: "int_of_digits (str_nat (nat v)) = v"
    using assms(7) by (simp add: int_of_digits_str_nat)
  have a: "out = Raised (GroqitStageError (opset_msg e v)) \<and> w' = w"
    if "v < MINIMUM_ONNX_OPSET e"
    using receive_below_minimum [OF assms(1-3) p assms(8), of e] that r iv by simp
  have b: "out = (if original_inputs_file state = base_onnx_file state
                   then Raised (GroqitStageError (receive_failed_msg e))
                   else case onnx_checker e m of
                          Passed \<Rightarrow> Returned
                        | ValidationError msg \<Rightarrow> Raised (GroqitStageError (receive_failed_msg e))
                        | CheckerRaised msg \<Rightarrow> Raised (CheckerError msg))"
    if "MINIMUM_ONNX_OPSET e \<le> v"
    using receive_supported(1) [OF assms(1-3) p assms(8), of e] that r iv by simp
  have c: "\<exists>rest. stdout w' =
               stdout w @ (if v < DEFAULT_ONNX_OPSET e then [advisory] else [])
                 @ (CHR 0x09 # ''Success receiving ONNX Model'') # rest"
    if "MINIMUM_ONNX_OPSET e \<le> v"
    using receive_supported(2) [OF assms(1-3) p assms(8), of e] that r iv by simp
  have d: "stdout w' =
              stdout w @ (if v < DEFAULT_ONNX_OPSET e then [advisory] else [])
                @ [CHR 0x09 # ''Success receiving ONNX Model'',
                   CHR 0x09 # ''Successfully checked onnx file'']"
    if "MINIMUM_ONNX_OPSET e \<le> v" "out = Returned"
    using receive_supported(3) [OF assms(1-3) p assms(8), of e] that r iv by simp
  show ?thesis using a b c d by blast
qed

theorem receive_opset_cases_witness:
  "fst (fire sample_env ReceiveOnnxModel (sample_state (PathStr ''m.onnx'') [])
          (sample_world ''m.onnx''
             (sample_model\<lparr>opset_import := [\<lparr>domain = None, version = Some 9\<rparr>]\<rparr>)))
     = Raised (GroqitStageError (opset_msg sample_env 9))
   \<and> fst (fire sample_env ReceiveOnnxModel (sample_state (PathStr ''m.onnx'') [])
          (sample_world ''m.onnx''
             (sample_model\<lparr>opset_import := [\<lparr>domain = Some [], version = Some 13\<rparr>,
                                               \<lparr>domain = Some ''ai.onnx.ml'', version = Some 2\<rparr>]\<rparr>)))
     = Returned
   \<and> stdout (snd (snd (fire sample_env ReceiveOnnxModel (sample_state (PathStr ''m.onnx'') [])
          (sample_world ''m.onnx''
             (sample_model\<lparr>opset_import := [\<lparr>domain = Some [], version = Some 13\<rparr>,
                                               \<lparr>domain = Some ''ai.onnx.ml'', version = Some 2\<rparr>]\<rparr>)))))
     = [advisory, CHR 0x09 # ''Success receiving ONNX Model'', CHR 0x09 # ''Successfully checked onnx file'']
   \<and> fst (fire sample_env ReceiveOnnxModel (sample_state (PathStr ''m.onnx'') [])
          (sample_world ''m.onnx''
             (sample_model\<lparr>opset_import := [\<lparr>domain = Some ''ai.onnx'', version = Some 17\<rparr>]\<rparr>)))
     = Returned
   \<and> stdout (snd (snd (fire sample_env ReceiveOnnxModel (sample_state (PathStr ''m.onnx'') [])
          (sample_world ''m.onnx''
             (sample_model\<lparr>opset_import := [\<lparr>domain = Some ''ai.onnx'', version = Some 17\<rparr>]\<rparr>)))))
     = [CHR 0x09 # ''Success receiving ONNX Model'', CHR 0x09 # ''Successfully checked onnx file'']"
proof -
  let ?s = "sample_state (PathStr ''m.onnx'') []"
  let ?lo = "sample_model\<lparr>opset_import := [\<lparr>domain = None, version = Some 9\<rparr>]\<rparr>"
  let ?mid = "sample_model\<lparr>opset_import := [\<lparr>domain = Some [], version = Some 13\<rparr>,
                                               \<lparr>domain = Some ''ai.onnx.ml'', version = Some 2\<rparr>]\<rparr>"
  let ?hi = "sample_model\<lparr>opset_import := [\<lparr>domain = Some ''ai.onnx'', version = Some 17\<rparr>]\<rparr>"
  let ?a = "fire sample_env ReceiveOnnxModel ?s (sample_world ''m.onnx'' ?lo)"
  let ?b = "fire sample_env ReceiveOnnxModel ?s (sample_world ''m.onnx'' ?mid)"
  let ?c = "fire sample_env ReceiveOnnxModel ?s (sample_world ''m.onnx'' ?hi)"
  have m: "model ?s = PathStr ''m.onnx''" and x: "endswith ''m.onnx'' ''.onnx''"
    by (simp_all add: sample_state_def endswith_def)
  have l: "onnx_load (sample_world ''m.onnx'' mdl) ''m.onnx'' = Inr mdl" for mdl
    by (simp add: onnx_load_def sample_world_def)
  have o: "opset_import ?lo = \<lparr>domain = None, version = Some 9\<rparr> # []"
    "opset_import ?mid = \<lparr>domain = Some [], version = Some 13\<rparr>
                           # [\<lparr>domain = Some ''ai.onnx.ml'', version = Some 2\<rparr>]"
    "opset_import ?hi = \<lparr>domain = Some ''ai.onnx'', version = Some 17\<rparr> # []"
    by simp_all
  have d: "domain \<lparr>domain = dm, version = vs\<rparr> = dm" "version \<lparr>domain = dm, version = vs\<rparr> = vs"
    for dm vs
    by simp_all
  have n: "\<not> has_dynamic_dim (graph_input_dims ?lo)"
    "\<not> has_dynamic_dim (graph_input_dims ?mid)"
    "\<not> has_dynamic_dim (graph_input_dims ?hi)"
    by (simp_all add: has_dynamic_dim_def sample_model_def)
  have e: "MINIMUM_ONNX_OPSET sample_env = 11" "DEFAULT_ONNX_OPSET sample_env = 14"
    "original_inputs_file ?s \<noteq> base_onnx_file ?s"
    "onnx_checker sample_env ?mid = Passed" "onnx_checker sample_env ?hi = Passed"
    "stdout (sample_world ''m.onnx'' mdl) = []" for mdl
    by (simp_all add: sample_env_def sample_state_def sample_model_def sample_world_def)
  have a: "fst ?a = Raised (GroqitStageError (opset_msg sample_env 9))"
    using receive_opset_cases [OF m x l o(1) _ _ _ n(1) triple [of ?a], of 9] e by simp
  have b: "fst ?b = Returned \<and> stdout (snd (snd ?b)) =
             [advisory, CHR 0x09 # ''Success receiving ONNX Model'', CHR 0x09 # ''Successfully checked onnx file'']"
    using receive_opset_cases [OF m x l o(2) _ _ _ n(2) triple [of ?b], of 13] e by simp
  have c: "fst ?c = Returned \<and> stdout (snd (snd ?c)) =
             [CHR 0x09 # ''Success receiving ONNX Model'', CHR 0x09 # ''Successfully checked onnx file'']"
    using receive_opset_cases [OF m x l o(3) _ _ _ n(3) triple [of ?c], of 17] e by simp
  show ?thesis using a b c by simp
qed

subsection \<open>The state after a raise\<close>

lemma dict_set_fresh: "k \<notin> fst ` set d \<Longrightarrow> dict_set k v d = d @ [(k, v)]"
  by (induction d) auto

lemma foldl_dict_set:
  "distinct (map fst (acc @ kvs)) \<Longrightarrow>
     foldl (\<lambda>d kv. dict_set (fst kv) (snd kv) d) acc kvs = acc @ kvs"
proof (induction kvs arbitrary: acc)
  case Nil
  then show ?case by simp
next
  case (Cons kv kvs)
  have f: "fst kv \<notin> fst ` set acc" using Cons.prems by auto
  have "distinct (map fst ((acc @ [kv]) @ kvs))" using Cons.prems by simp
  from Cons.IH [OF this] show ?case
    by (simp add: dict_set_fresh [OF f])
qed

lemma dict_zip_id: "distinct (keys d) \<Longrightarrow> dict (zip (keys d) (values_of d)) = d"
  using foldl_dict_set [of "[]" d] by (simp add: dict_def keys_def values_of_def zip_map_fst_snd)

lemma check_model_raises_checker_error:
  "fst (check_model e w p s f) = Inl err \<Longrightarrow> checker_error err"
  by (auto simp: check_model_def Let_def checker_error_def split: if_splits checker_result.splits)

lemma receive_inputs_kept:
  assumes "ReceiveOnnxModel_fire e state w = (out, state', w')" and "distinct (keys (inputs state))"
  shows "inputs state' = inputs state"
  using assms(1) dict_zip_id [OF assms(2)]
  by (auto simp: ReceiveOnnxModel_fire_def Let_def case_prod_beta split: fire_splits)

lemma other_inputs_kept:
  "OptimizeOnnxModel_fire e state w = (out, state', w') \<Longrightarrow> inputs state' = inputs state"
  "CheckOnnxCompatibility_fire e state w = (out, state', w') \<Longrightarrow> inputs state' = inputs state"
  "ConvertOnnxToFp16_fire e state w = (out, state', w') \<Longrightarrow> inputs state' = inputs state"
  by (auto simp: OptimizeOnnxModel_fire_def CheckOnnxCompatibility_fire_def ConvertOnnxToFp16_fire_def
        Let_def case_prod_beta split: fire_splits)

lemma receive_raised_early:
  assumes "ReceiveOnnxModel_fire e state w = (Raised err, state', w')"
    and "distinct (keys (inputs state))"
    and "err \<noteq> GroqitStageError (receive_failed_msg e)" and "\<not> checker_error err"
  shows "state' = state \<and> w' = w"
proof -
  have d: "state\<lparr>inputs := dict (zip (keys (inputs state)) (values_of (inputs state)))\<rparr> = state"
    by (simp add: dict_zip_id [OF assms(2)])
  show ?thesis
    using assms(1,3,4)
    by (auto simp: ReceiveOnnxModel_fire_def Let_def case_prod_beta d shutil_move_def onnx_load_def
          dest: check_model_raises_checker_error split: fire_splits file_content.splits)
qed

lemma export_raised_early:
  assumes "ExportPytorchModel_fire e state w = (Raised err, state', w')"
    and "err \<noteq> GroqitStageError (export_failed_msg e)" and "\<not> checker_error err"
    and "\<not> exporter_error ExportPytorchModel err"
  shows "state' = state \<and> w' = w"
  using assms
  by (auto simp: ExportPytorchModel_fire_def Let_def case_prod_beta exporter_error_def
        dest: check_model_raises_checker_error split: fire_splits)

lemma positional_inputs_error: "positional_inputs state = Inl err \<Longrightarrow> \<exists>msg. err = ValueError msg"
  by (auto simp: positional_inputs_def Let_def split: model_ref.splits option.splits)

lemma export_exporter_error:
  assumes "ExportPytorchModel_fire e state w = (Raised err, state', w')"
    and "exporter_error ExportPytorchModel err"
  shows "state' = state\<lparr>info := (info state)\<lparr>opset := Some (DEFAULT_ONNX_OPSET e)\<rparr>\<rparr>
         \<and> fs w' = fs w \<and> stdout w' = stdout w"
proof -
  from assms(2) obtain msg where err: "err = ExternalError msg"
    by (cases err) (simp_all add: exporter_error_def)
  have c: "fst (check_model e v p s f) \<noteq> Inl (ExternalError msg)" for v p s f
    using check_model_raises_checker_error [of e v p s f "ExternalError msg"]
    by (auto simp: checker_error_def)
  show ?thesis
    using assms(1) unfolding err
    by (auto simp: ExportPytorchModel_fire_def Let_def case_prod_beta c
          dest: positional_inputs_error split: fire_splits)
qed

lemma optimize_raised_early:
  assumes "OptimizeOnnxModel_fire e state w = (Raised err, state', w')"
    and "err \<noteq> GroqitStageError (optimize_failed_msg e)" and "\<not> checker_error err"
  shows "state' = state \<and> w' = w"
  using assms
  by (auto simp: OptimizeOnnxModel_fire_def Let_def case_prod_beta
        dest: check_model_raises_checker_error split: fire_splits)

lemma convert_raised_early:
  assumes "ConvertOnnxToFp16_fire e state w = (Raised err, state', w')"
    and "err \<noteq> GroqitStageError (convert_failed_msg e)" and "\<not> checker_error err"
  shows "state' = state \<and> w' = w"
  using assms
  by (auto simp: ConvertOnnxToFp16_fire_def Let_def case_prod_beta
        dest: check_model_raises_checker_error split: fire_splits)

lemma compat_raised_early:
  assumes "CheckOnnxCompatibility_fire e state w = (Raised err, state', w')"
    and "\<not> final_check_error e CheckOnnxCompatibility state' err"
  shows "state' = state \<and> w' = w"
  using assms
  by (auto simp: CheckOnnxCompatibility_fire_def Let_def case_prod_beta split: fire_splits)

text \<open>
  C5 as the claim states it fails, in three ways. The receiving stage, given a model with
  static shapes and a supported opset that the checker then rejects, raises after it has
  moved the model to \<^verbatim>\<open>base_onnx_file\<close> and set
  \<^verbatim>\<open>info.base_onnx_exported\<close> to \<open>False\<close>. The exporting stage has set
  \<^verbatim>\<open>info.opset\<close> when the exporter raises, and has replaced
  \<^verbatim>\<open>state.inputs\<close> by the positional inputs when its validator raises.
\<close>

theorem fire_raise_mutates_counterexample:
  "fst (fire sample_env ReceiveOnnxModel (sample_state (PathStr ''m.onnx'') [])
          (sample_world ''m.onnx'' (sample_model\<lparr>graph_nodes := []\<rparr>)))
     = Raised (GroqitStageError (receive_failed_msg sample_env))
   \<and> base_onnx_exported (info (sample_state (PathStr ''m.onnx'') [])) = None
   \<and> base_onnx_exported (info (fst (snd (fire sample_env ReceiveOnnxModel
        (sample_state (PathStr ''m.onnx'') [])
        (sample_world ''m.onnx'' (sample_model\<lparr>graph_nodes := []\<rparr>)))))) = Some False
   \<and> fs (sample_world ''m.onnx'' (sample_model\<lparr>graph_nodes := []\<rparr>)) ''m.onnx''
       = Some (OnnxFile (sample_model\<lparr>graph_nodes := []\<rparr>))
   \<and> fs (snd (snd (fire sample_env ReceiveOnnxModel (sample_state (PathStr ''m.onnx'') [])
        (sample_world ''m.onnx'' (sample_model\<lparr>graph_nodes := []\<rparr>))))) ''m.onnx'' = None
   \<and> fs (sample_world ''m.onnx'' (sample_model\<lparr>graph_nodes := []\<rparr>)) ''base.onnx'' = None
   \<and> fs (snd (snd (fire sample_env ReceiveOnnxModel (sample_state (PathStr ''m.onnx'') [])
        (sample_world ''m.onnx'' (sample_model\<lparr>graph_nodes := []\<rparr>))))) ''base.onnx''
       = Some (OnnxFile (sample_model\<lparr>graph_nodes := []\<rparr>))
   \<and> fst (fire no_export_env ExportPytorchModel (sample_state (NNModule [''mask'', ''x''] ''Net'') [])
          (sample_world ''m.onnx'' sample_model))
       = Raised (ExternalError ''cannot trace the model'')
   \<and> opset (info (sample_state (NNModule [''mask'', ''x''] ''Net'') [])) = None
   \<and> opset (info (fst (snd (fire no_export_env ExportPytorchModel
        (sample_state (NNModule [''mask'', ''x''] ''Net'') []) (sample_world ''m.onnx'' sample_model)))))
       = Some 14
   \<and> fst (fire crashing_env ExportPytorchModel (sample_state (NNModule [''mask'', ''x''] ''Net'') [])
          (sample_world ''m.onnx'' sample_model))
       = Raised (CheckerError ''RuntimeError'')
   \<and> inputs (sample_state (NNModule [''mask'', ''x''] ''Net'') []) = [(''x'', Some (Tensor [1, 3, 224, 224] []))]
   \<and> inputs (fst (snd (fire crashing_env ExportPytorchModel
        (sample_state (NNModule [''mask'', ''x''] ''Net'') []) (sample_world ''m.onnx'' sample_model))))
       = [(''mask'', None), (''x'', Some (Tensor [1, 3, 224, 224] []))]"
  by (simp add: ReceiveOnnxModel_fire_def ExportPytorchModel_fire_def positional_inputs_def eval_defs
        no_export_env_def crashing_env_def traced_model_def check_model_result check_model_fs)

text \<open>
  C5, amended. When a \<^verbatim>\<open>fire\<close> call raises before the transformation of the stage
  has run (every error but the stage error of the final check, an exception of the checker
  and, in the exporting stage, the exception of the exporter), the state and the world are
  exactly the ones it was given. When the exporter raises, \<^verbatim>\<open>info.opset\<close> has
  been set and nothing else has changed. In every case
  \<^verbatim>\<open>state.intermediate_results\<close>, the model, the path fields,
  \<^verbatim>\<open>use_sdk\<close>, every field of \<^verbatim>\<open>state.info\<close> that is not the failing
  stage's own and, in every stage but the exporting one, \<^verbatim>\<open>state.inputs\<close> are as
  they were before the call, and so is every file but those at the stage's own slot, at the
  path of the saved inputs and at the source path of a received model.
  (\<^verbatim>\<open>state.inputs\<close> is a dict: its keys are distinct.)
\<close>

theorem fire_raised_frame:
  assumes "fire e s state w = (Raised err, state', w')"
    and "distinct (keys (inputs state))"
  shows "intermediate_results state' = intermediate_results state
         \<and> same_paths state' state
         \<and> clear_own s (info state') = clear_own s (info state)
         \<and> (\<forall>p. p \<notin> set (touched_paths s state) \<longrightarrow> fs w' p = fs w p)
         \<and> (s \<noteq> ExportPytorchModel \<longrightarrow> inputs state' = inputs state)
         \<and> (\<not> final_check_error e s state' err \<and> \<not> checker_error err \<and> \<not> exporter_error s err \<longrightarrow>
              state' = state \<and> w' = w)
         \<and> (exporter_error s err \<longrightarrow>
              state' = state\<lparr>info := (info state)\<lparr>opset := Some (DEFAULT_ONNX_OPSET e)\<rparr>\<rparr>
              \<and> fs w' = fs w \<and> stdout w' = stdout w)"
proof -
  have i: "s \<noteq> ExportPytorchModel \<longrightarrow> inputs state' = inputs state"
  proof (cases s)
    case ReceiveOnnxModel
    then have "ReceiveOnnxModel_fire e state w = (Raised err, state', w')" using assms(1) by simp
    from receive_inputs_kept [OF this assms(2)] show ?thesis by simp
  next
    case ExportPytorchModel
    then show ?thesis by simp
  next
    case OptimizeOnnxModel
    then have "OptimizeOnnxModel_fire e state w = (Raised err, state', w')" using assms(1) by simp
    from other_inputs_kept(1) [OF this] show ?thesis by simp
  next
    case CheckOnnxCompatibility
    then have "CheckOnnxCompatibility_fire e state w = (Raised err, state', w')" using assms(1) by simp
    from other_inputs_kept(2) [OF this] show ?thesis by simp
  next
    case ConvertOnnxToFp16
    then have "ConvertOnnxToFp16_fire e state w = (Raised err, state', w')" using assms(1) by simp
    from other_inputs_kept(3) [OF this] show ?thesis by simp
  qed
  have a: "state' = state \<and> w' = w"
    if n: "\<not> final_check_error e s state' err" "\<not> checker_error err" "\<not> exporter_error s err"
  proof (cases s)
    case ReceiveOnnxModel
    then have f: "ReceiveOnnxModel_fire e state w = (Raised err, state', w')" using assms(1) by simp
    have "err \<noteq> GroqitStageError (receive_failed_msg e)" using n(1) ReceiveOnnxModel by simp
    from receive_raised_early [OF f assms(2) this n(2)] show ?thesis .
  next
    case ExportPytorchModel
    then have f: "ExportPytorchModel_fire e state w = (Raised err, state', w')" using assms(1) by simp
    have m: "err \<noteq> GroqitStageError (export_failed_msg e)" using n(1) ExportPytorchModel by simp
    have x: "\<not> exporter_error ExportPytorchModel err" using n(3) ExportPytorchModel by simp
    from export_raised_early [OF f m n(2) x] show ?thesis .
  next
    case OptimizeOnnxModel
    then have f: "OptimizeOnnxModel_fire e state w = (Raised err, state', w')" using assms(1) by simp
    have "err \<noteq> GroqitStageError (optimize_failed_msg e)" using n(1) OptimizeOnnxModel by simp
    from optimize_raised_early [OF f this n(2)] show ?thesis .
  next
    case CheckOnnxCompatibility
    then have f: "CheckOnnxCompatibility_fire e state w = (Raised err, state', w')"
      using assms(1) by simp
    have "\<not> final_check_error e CheckOnnxCompatibility state' err"
      using n(1) CheckOnnxCompatibility by simp
    from compat_raised_early [OF f this] show ?thesis .
  next
    case ConvertOnnxToFp16
    then have f: "ConvertOnnxToFp16_fire e state w = (Raised err, state', w')" using assms(1) by simp
    have "err \<noteq> GroqitStageError (convert_failed_msg e)" using n(1) ConvertOnnxToFp16 by simp
    from convert_raised_early [OF f this n(2)] show ?thesis .
  qed
  have x: "state' = state\<lparr>info := (info state)\<lparr>opset := Some (DEFAULT_ONNX_OPSET e)\<rparr>\<rparr>
              \<and> fs w' = fs w \<and> stdout w' = stdout w"
    if h: "exporter_error s err"
  proof -
    from h have s: "s = ExportPytorchModel" by (simp add: exporter_error_def)
    then have f: "ExportPytorchModel_fire e state w = (Raised err, state', w')" using assms(1) by simp
    have "exporter_error ExportPytorchModel err" using h s by simp
    from export_exporter_error [OF f this] show ?thesis .
  qed
  have fr: "intermediate_results state' = intermediate_results state"
    "same_paths state' state" "clear_own s (info state') = clear_own s (info state)"
    using fire_state_frame [OF assms(1)] by simp_all
  have ff: "\<forall>p. p \<notin> set (touched_paths s state) \<longrightarrow> fs w' p = fs w p"
    using fire_fs_frame [OF assms(1)] by blast
  have a': "\<not> final_check_error e s state' err \<and> \<not> checker_error err \<and> \<not> exporter_error s err \<longrightarrow>
              state' = state \<and> w' = w"
    using a by blast
  have x': "exporter_error s err \<longrightarrow>
              state' = state\<lparr>info := (info state)\<lparr>opset := Some (DEFAULT_ONNX_OPSET e)\<rparr>\<rparr>
              \<and> fs w' = fs w \<and> stdout w' = stdout w"
    using x by blast
  show ?thesis
    by (intro conjI fr ff i a' x')
qed

theorem fire_raised_frame_witness:
  "distinct (keys (inputs (sample_state (PathStr ''m.onnx'') [''old.onnx''])))
   \<and> fst (fire sample_env ReceiveOnnxModel (sample_state (PathStr ''m.onnx'') [''old.onnx''])
          (with_file ''opt.onnx'' sample_model
             (sample_world ''m.onnx'' (sample_model\<lparr>graph_nodes := []\<rparr>))))
     = Raised (GroqitStageError (receive_failed_msg sample_env))
   \<and> intermediate_results (fst (snd (fire sample_env ReceiveOnnxModel
        (sample_state (PathStr ''m.onnx'') [''old.onnx''])
        (with_file ''opt.onnx'' sample_model
           (sample_world ''m.onnx'' (sample_model\<lparr>graph_nodes := []\<rparr>)))))) = [''old.onnx'']
   \<and> inputs (fst (snd (fire sample_env ReceiveOnnxModel
        (sample_state (PathStr ''m.onnx'') [''old.onnx''])
        (with_file ''opt.onnx'' sample_model
           (sample_world ''m.onnx'' (sample_model\<lparr>graph_nodes := []\<rparr>))))))
       = [(''x'', Some (Tensor [1, 3, 224, 224] []))]
   \<and> ''opt.onnx'' \<notin> set (touched_paths ReceiveOnnxModel (sample_state (PathStr ''m.onnx'') [''old.onnx'']))
   \<and> fs (snd (snd (fire sample_env ReceiveOnnxModel (sample_state (PathStr ''m.onnx'') [''old.onnx''])
        (with_file ''opt.onnx'' sample_model
           (sample_world ''m.onnx'' (sample_model\<lparr>graph_nodes := []\<rparr>)))))) ''opt.onnx''
       = Some (OnnxFile sample_model)
   \<and> fire sample_env ReceiveOnnxModel (sample_state (PathStr ''m.onnx'') [''old.onnx''])
        (with_file ''opt.onnx'' sample_model
           (sample_world ''m.onnx'' (sample_model\<lparr>opset_import := [\<lparr>domain = None, version = Some 9\<rparr>]\<rparr>)))
       = (Raised (GroqitStageError (opset_msg sample_env 9)),
          sample_state (PathStr ''m.onnx'') [''old.onnx''],
          with_file ''opt.onnx'' sample_model
            (sample_world ''m.onnx'' (sample_model\<lparr>opset_import := [\<lparr>domain = None, version = Some 9\<rparr>]\<rparr>)))
   \<and> fst (fire sample_env OptimizeOnnxModel (sample_state (PathStr ''m.onnx'') [''base.onnx''])
          (sample_world ''base.onnx'' (sample_model\<lparr>graph_nodes := []\<rparr>)))
     = Raised (GroqitStageError (optimize_failed_msg sample_env))
   \<and> inputs (fst (snd (fire sample_env OptimizeOnnxModel (sample_state (PathStr ''m.onnx'') [''base.onnx''])
          (sample_world ''base.onnx'' (sample_model\<lparr>graph_nodes := []\<rparr>)))))
       = [(''x'', Some (Tensor [1, 3, 224, 224] []))]
   \<and> intermediate_results (fst (snd (fire sample_env OptimizeOnnxModel
          (sample_state (PathStr ''m.onnx'') [''base.onnx''])
          (sample_world ''base.onnx'' (sample_model\<lparr>graph_nodes := []\<rparr>))))) = [''base.onnx'']
   \<and> fs (snd (snd (fire sample_env OptimizeOnnxModel (sample_state (PathStr ''m.onnx'') [''base.onnx''])
          (sample_world ''base.onnx'' (sample_model\<lparr>graph_nodes := []\<rparr>))))) ''base.onnx''
       = Some (OnnxFile (sample_model\<lparr>graph_nodes := []\<rparr>))"
proof -
  let ?s = "sample_state (PathStr ''m.onnx'') [''old.onnx'']"
  let ?bad = "sample_model\<lparr>graph_nodes := []\<rparr>"
  let ?lo = "sample_model\<lparr>opset_import := [\<lparr>domain = None, version = Some 9\<rparr>]\<rparr>"
  let ?w = "with_file ''opt.onnx'' sample_model (sample_world ''m.onnx'' ?bad)"
  let ?v = "with_file ''opt.onnx'' sample_model (sample_world ''m.onnx'' ?lo)"
  let ?t = "sample_state (PathStr ''m.onnx'') [''base.onnx'']"
  let ?u = "sample_world ''base.onnx'' ?bad"
  let ?r = "fire sample_env ReceiveOnnxModel ?s ?w"
  let ?q = "fire sample_env ReceiveOnnxModel ?s ?v"
  let ?o = "fire sample_env OptimizeOnnxModel ?t ?u"
  have d: "distinct (keys (inputs ?s))" "distinct (keys (inputs ?t))"
    by (simp_all add: sample_state_def keys_def)
  have r: "fst ?r = Raised (GroqitStageError (receive_failed_msg sample_env))"
    by (simp add: ReceiveOnnxModel_fire_def eval_defs with_file_def check_model_result)
  have q: "fst ?q = Raised (GroqitStageError (opset_msg sample_env 9))"
    by (simp add: ReceiveOnnxModel_fire_def eval_defs with_file_def)
  have o: "fst ?o = Raised (GroqitStageError (optimize_failed_msg sample_env))"
    by (simp add: OptimizeOnnxModel_fire_def eval_defs check_model_result)
  have r3: "?r = (Raised (GroqitStageError (receive_failed_msg sample_env)), fst (snd ?r), snd (snd ?r))"
    using r triple [of ?r] by simp
  have q3: "?q = (Raised (GroqitStageError (opset_msg sample_env 9)), fst (snd ?q), snd (snd ?q))"
    using q triple [of ?q] by simp
  have o3: "?o = (Raised (GroqitStageError (optimize_failed_msg sample_env)), fst (snd ?o), snd (snd ?o))"
    using o triple [of ?o] by simp
  have t: "''opt.onnx'' \<notin> set (touched_paths ReceiveOnnxModel ?s)"
    "''base.onnx'' \<notin> set (touched_paths OptimizeOnnxModel ?t)"
    by (simp_all add: sample_state_def)
  have i: "intermediate_results ?s = [''old.onnx'']" "intermediate_results ?t = [''base.onnx'']"
    "inputs ?s = [(''x'', Some (Tensor [1, 3, 224, 224] []))]"
    "inputs ?t = [(''x'', Some (Tensor [1, 3, 224, 224] []))]"
    "fs ?w ''opt.onnx'' = Some (OnnxFile sample_model)"
    "fs ?u ''base.onnx'' = Some (OnnxFile ?bad)"
    by (simp_all add: sample_state_def sample_world_def with_file_def)
  have n: "\<not> final_check_error sample_env ReceiveOnnxModel (fst (snd ?q))
               (GroqitStageError (opset_msg sample_env 9))"
    "\<not> checker_error (GroqitStageError (opset_msg sample_env 9))"
    "\<not> exporter_error ReceiveOnnxModel (GroqitStageError (opset_msg sample_env 9))"
    by (simp_all add: checker_error_def exporter_error_def opset_msg_def receive_failed_msg_def
          message_def nl_def)
  have 1: "intermediate_results (fst (snd ?r)) = [''old.onnx'']
           \<and> inputs (fst (snd ?r)) = [(''x'', Some (Tensor [1, 3, 224, 224] []))]
           \<and> fs (snd (snd ?r)) ''opt.onnx'' = Some (OnnxFile sample_model)"
    using fire_raised_frame [OF r3 d(1)] t(1) i by simp
  have 2: "fst (snd ?q) = ?s \<and> snd (snd ?q) = ?v"
    using fire_raised_frame [OF q3 d(1)] n by simp
  have 3: "inputs (fst (snd ?o)) = [(''x'', Some (Tensor [1, 3, 224, 224] []))]
           \<and> intermediate_results (fst (snd ?o)) = [''base.onnx'']
           \<and> fs (snd (snd ?o)) ''base.onnx'' = Some (OnnxFile ?bad)"
    using fire_raised_frame [OF o3 d(2)] t(2) i by simp
  have q': "?q = (Raised (GroqitStageError (opset_msg sample_env 9)), ?s, ?v)"
    using q 2 by (simp add: prod_eq_iff)
  show ?thesis using d r o t 1 3 q' by simp
qed

end
